theory Spec2Isabelle
  imports Complex_Main "HOL-Library.Char_ord" "HOL-Library.List_Lexorder" "HOL-Library.Multiset"
begin

section \<open>Data model\<close>

text \<open>
  The notebook \<^verbatim>\<open>cocultures.ipynb\<close> defines two functions over pandas objects,
  \<^verbatim>\<open>interpolate_fluxes\<close> and \<^verbatim>\<open>calc_kos\<close>.

  A pandas Series of fluxes is a list of (index label, value) pairs in listing order; labels
  may repeat. Fluxes are float64 in the source and real numbers here. \<open>interpolate_fluxes\<close>
  evaluates the arithmetic exactly and \<open>interpolate_fluxes_f64\<close> rounds each operation to
  binary64; infinities and NaN among the recorded fluxes are outside the model. The
  missing-value marker NaN that \<^verbatim>\<open>reindex\<close> produces is \<open>None\<close>.

  A DataFrame of a medium is an association list from column name to the column, each column
  being a Series over the frame's index.
\<close>

type_synonym series = "(string \<times> real) list"

type_synonym na_series = "(string \<times> real option) list"

type_synonym dataframe = "(string \<times> series) list"

text \<open>
  The exceptions of the source. \<open>ValueError\<close>, \<open>KeyError\<close> and \<open>TypeError\<close> carry their
  message; \<open>Exception\<close> stands for any other subclass of Python's \<^verbatim>\<open>Exception\<close>, such as the ones
  the community solver raises.
\<close>

datatype error = ValueError string | KeyError string | TypeError string | Exception string

section \<open>interpolate\_fluxes\<close>

text \<open>\<^verbatim>\<open>medium[flux_col]\<close>: the column of that name, KeyError when there is none.\<close>

definition getitem :: "dataframe \<Rightarrow> string \<Rightarrow> error + series" where
  "getitem df col = (case map_of df col of None \<Rightarrow> Inl (KeyError col) | Some s \<Rightarrow> Inr s)"

text \<open>
  \<^verbatim>\<open>index.duplicated(keep='first')\<close>: one flag per position, true where the label
  has occurred at an earlier position. The first argument holds the labels seen so far.
\<close>

fun duplicated :: "string list \<Rightarrow> string list \<Rightarrow> bool list" where
  "duplicated seen [] = []"
| "duplicated seen (x # xs) = (x \<in> set seen) # duplicated (x # seen) xs"

text \<open>\<^verbatim>\<open>series[mask]\<close>: the entries at the positions where the boolean mask is true.\<close>

definition mask_select :: "bool list \<Rightarrow> 'a list \<Rightarrow> 'a list" where
  "mask_select flags xs = map snd (filter fst (zip flags xs))"

text \<open>\<^verbatim>\<open>s[~s.index.duplicated(keep='first')]\<close>\<close>

definition drop_duplicated :: "series \<Rightarrow> series" where
  "drop_duplicated s = mask_select (map Not (duplicated [] (map fst s))) s"

text \<open>
  \<^verbatim>\<open>s.reindex(new_index)\<close> on a Series. When the new index is the Series' own index the
  Series comes back as it is. Otherwise pandas refuses a Series whose index repeats a label,
  and for a Series of distinct labels it returns one entry per label of the new index, in
  its order, holding the value recorded under that label, NaN when the label is absent.
\<close>

definition reindex :: "series \<Rightarrow> string list \<Rightarrow> error + na_series" where
  "reindex s new_index =
     (if map fst s = new_index then Inr (map (\<lambda>(r, x). (r, Some x)) s)
      else if distinct (map fst s) then Inr (map (\<lambda>r. (r, map_of s r)) new_index)
      else Inl (ValueError ''cannot reindex on an axis with duplicate labels''))"

text \<open>\<^verbatim>\<open>fillna(v)\<close>: every NaN cell becomes \<open>v\<close>.\<close>

definition fillna :: "real \<Rightarrow> na_series \<Rightarrow> series" where
  "fillna v s = map (\<lambda>(r, c). (r, case c of None \<Rightarrow> v | Some x \<Rightarrow> x)) s"

text \<open>Scalar times Series, and the sum of two columns of one frame (they share the index).\<close>

definition series_scale :: "real \<Rightarrow> series \<Rightarrow> series" where
  "series_scale c s = map (\<lambda>(r, x). (r, c * x)) s"

definition series_add :: "series \<Rightarrow> series \<Rightarrow> series" where
  "series_add s t = map (\<lambda>((r, x), (_, y)). (r, x + y)) (zip s t)"

text \<open>
  \<^verbatim>\<open>list(set(a).union(set(b)))\<close> lists every label of \<open>a\<close> and of \<open>b\<close> once, in the
  iteration order of Python's set, which the language leaves open. The listing is therefore
  a parameter \<open>listing\<close> of the model, and \<open>set_union_listing\<close> says what Python guarantees
  of it.
\<close>

definition set_union_listing :: "(string list \<Rightarrow> string list \<Rightarrow> string list) \<Rightarrow> bool" where
  "set_union_listing listing \<longleftrightarrow>
     (\<forall>a b. set (listing a b) = set a \<union> set b \<and> distinct (listing a b))"

text \<open>One admissible listing: first occurrences, in the order met.\<close>

definition first_seen_listing :: "string list \<Rightarrow> string list \<Rightarrow> string list" where
  "first_seen_listing a b = remdups (a @ b)"

text \<open>Another one: the same labels in the opposite order.\<close>

definition last_seen_listing :: "string list \<Rightarrow> string list \<Rightarrow> string list" where
  "last_seen_listing a b = rev (remdups (a @ b))"

definition interpolate_fluxes ::
  "(string list \<Rightarrow> string list \<Rightarrow> string list) \<Rightarrow>
     dataframe \<Rightarrow> dataframe \<Rightarrow> real \<Rightarrow> string \<Rightarrow> string \<Rightarrow> error + series" where
  "interpolate_fluxes listing medium_1 medium_2 n flux_col_1 flux_col_2 =
     (if \<not> (0 \<le> n \<and> n \<le> 1) then Inl (ValueError ''n must be between 0 and 1'')
      else case getitem medium_1 flux_col_1 of
        Inl e \<Rightarrow> Inl e
      | Inr medium_1_series \<Rightarrow>
         (case getitem medium_2 flux_col_2 of
            Inl e \<Rightarrow> Inl e
          | Inr medium_2_series \<Rightarrow>
             (let all_rxns = listing (map fst medium_1_series) (map fst medium_2_series);
                  medium_1_unique = drop_duplicated medium_1_series;
                  medium_2_unique = drop_duplicated medium_2_series
              in case reindex medium_1_unique all_rxns of
                   Inl e \<Rightarrow> Inl e
                 | Inr medium_1_flux \<Rightarrow>
                    (case reindex medium_2_unique all_rxns of
                       Inl e \<Rightarrow> Inl e
                     | Inr medium_2_flux \<Rightarrow>
                        Inr (series_add (series_scale (1 - n) (fillna 0 medium_1_flux))
                                        (series_scale n (fillna 0 medium_2_flux)))))))"

text \<open>The default column name of both \<^verbatim>\<open>flux_col\<close> arguments.\<close>

definition flux :: string where
  "flux = ''flux''"

text \<open>The flux a profile contributes for a label: its first recorded value, 0 when absent.\<close>

definition recorded :: "series \<Rightarrow> string \<Rightarrow> real" where
  "recorded s r = (case map_of s r of None \<Rightarrow> 0 | Some v \<Rightarrow> v)"

section \<open>interpolate\_fluxes on the caller's objects\<close>

text \<open>
  Python hands \<^verbatim>\<open>medium_1\<close> and \<^verbatim>\<open>medium_2\<close> over by reference, and pandas can change a
  frame in place, so what the call does to its arguments is a question about a store of
  objects. The store is the list of the objects that exist, an address is a position in it,
  and a new object is added at the end.

  Two kinds of object occur. A \<open>FrameObj\<close> is a frame of fluxes, as the caller's two media
  are and as \<^verbatim>\<open>fillna\<close> returns. A \<open>CombinedObj\<close> is \<^verbatim>\<open>combined_df\<close> while it is being
  built: an index and the columns assigned so far, whose cells may be NaN. The Series the
  function derives (the two flux columns, their copies without duplicates, the reindexed
  columns) are never changed in place by the source and are carried as values.
\<close>

type_synonym addr = nat

record combined_frame =
  cf_index :: "string list"
  cf_columns :: "(string \<times> na_series) list"

datatype object = FrameObj dataframe | CombinedObj combined_frame

type_synonym store = "object list"

text \<open>
  One statement after the other: the first statement's error ends the call with the store
  as that statement left it.
\<close>

definition then_do ::
  "(error + 'a) \<times> store \<Rightarrow> ('a \<Rightarrow> store \<Rightarrow> (error + 'b) \<times> store) \<Rightarrow> (error + 'b) \<times> store" where
  "then_do step rest = (case fst step of Inl e \<Rightarrow> (Inl e, snd step) | Inr x \<Rightarrow> rest x (snd step))"

text \<open>
  Reading the object at an address. Python has no reference to a missing object and the
  source passes frames only; the error branches make the two functions total.
\<close>

definition frame_at :: "store \<Rightarrow> addr \<Rightarrow> error + dataframe" where
  "frame_at st a =
     (if a < length st
      then (case st ! a of FrameObj df \<Rightarrow> Inr df
                         | CombinedObj cf \<Rightarrow> Inl (TypeError ''not a frame of fluxes''))
      else Inl (TypeError ''no such object''))"

definition combined_at :: "store \<Rightarrow> addr \<Rightarrow> error + combined_frame" where
  "combined_at st a =
     (if a < length st
      then (case st ! a of CombinedObj cf \<Rightarrow> Inr cf
                         | FrameObj df \<Rightarrow> Inl (TypeError ''not a frame under construction''))
      else Inl (TypeError ''no such object''))"

text \<open>\<^verbatim>\<open>frame[col]\<close> on the frame at an address; the store is left as it is.\<close>

definition read_column :: "addr \<Rightarrow> string \<Rightarrow> store \<Rightarrow> (error + series) \<times> store" where
  "read_column a col st =
     (case frame_at st a of Inl e \<Rightarrow> (Inl e, st) | Inr df \<Rightarrow> (getitem df col, st))"

text \<open>\<^verbatim>\<open>pd.DataFrame(index=all_rxns)\<close>: a new frame with that index and no column.\<close>

definition new_combined :: "string list \<Rightarrow> store \<Rightarrow> (error + addr) \<times> store" where
  "new_combined idx st = (Inr (length st), st @ [CombinedObj \<lparr>cf_index = idx, cf_columns = []\<rparr>])"

text \<open>\<^verbatim>\<open>combined_df.index\<close>\<close>

definition read_index :: "addr \<Rightarrow> store \<Rightarrow> (error + string list) \<times> store" where
  "read_index a st =
     (case combined_at st a of Inl e \<Rightarrow> (Inl e, st) | Inr cf \<Rightarrow> (Inr (cf_index cf), st))"

text \<open>
  \<^verbatim>\<open>combined_df[col] = s\<close> changes the frame at the address in place. pandas first aligns
  the Series with the frame's index, as \<^verbatim>\<open>reindex\<close> does; the column replaces one of the
  same name or is added after the others.
\<close>

definition align :: "na_series \<Rightarrow> string list \<Rightarrow> error + na_series" where
  "align s idx =
     (if map fst s = idx then Inr s
      else if distinct (map fst s)
      then Inr (map (\<lambda>r. (r, case map_of s r of None \<Rightarrow> None | Some c \<Rightarrow> c)) idx)
      else Inl (ValueError ''cannot reindex on an axis with duplicate labels''))"

definition put_column :: "string \<Rightarrow> na_series \<Rightarrow> (string \<times> na_series) list \<Rightarrow> (string \<times> na_series) list" where
  "put_column col s cols =
     (if col \<in> set (map fst cols) then map (\<lambda>(c, old). if c = col then (c, s) else (c, old)) cols
      else cols @ [(col, s)])"

definition set_column :: "addr \<Rightarrow> string \<Rightarrow> na_series \<Rightarrow> store \<Rightarrow> (error + unit) \<times> store" where
  "set_column a col s st =
     (case combined_at st a of
        Inl e \<Rightarrow> (Inl e, st)
      | Inr cf \<Rightarrow>
         (case align s (cf_index cf) of
            Inl e \<Rightarrow> (Inl e, st)
          | Inr aligned \<Rightarrow>
             (Inr (), st[a := CombinedObj (cf\<lparr>cf_columns := put_column col aligned (cf_columns cf)\<rparr>)])))"

text \<open>\<^verbatim>\<open>combined_df.fillna(v)\<close>: a new frame; the frame at the address is left as it is.\<close>

definition fillna_frame :: "real \<Rightarrow> addr \<Rightarrow> store \<Rightarrow> (error + addr) \<times> store" where
  "fillna_frame v a st =
     (case combined_at st a of
        Inl e \<Rightarrow> (Inl e, st)
      | Inr cf \<Rightarrow> (Inr (length st), st @ [FrameObj (map (\<lambda>(c, s). (c, fillna v s)) (cf_columns cf))]))"

text \<open>
  The statements of \<^verbatim>\<open>interpolate_fluxes\<close> in the order of the source. The value it
  returns is the one \<open>interpolate_fluxes\<close> computes (\<open>interpolate_fluxes_store_run\<close> and
  \<open>interpolate_fluxes_store_error\<close> below); what is added here is the store after the call.
\<close>

definition interpolate_fluxes_store ::
  "(string list \<Rightarrow> string list \<Rightarrow> string list) \<Rightarrow> store \<Rightarrow>
     addr \<Rightarrow> addr \<Rightarrow> real \<Rightarrow> string \<Rightarrow> string \<Rightarrow> (error + series) \<times> store" where
  "interpolate_fluxes_store listing st medium_1 medium_2 n flux_col_1 flux_col_2 =
     (if \<not> (0 \<le> n \<and> n \<le> 1) then (Inl (ValueError ''n must be between 0 and 1''), st)
      else
        then_do (read_column medium_1 flux_col_1 st) (\<lambda>medium_1_series st.
        then_do (read_column medium_2 flux_col_2 st) (\<lambda>medium_2_series st.
        let all_rxns = listing (map fst medium_1_series) (map fst medium_2_series);
            medium_1_unique = drop_duplicated medium_1_series;
            medium_2_unique = drop_duplicated medium_2_series
        in
        then_do (new_combined all_rxns st) (\<lambda>combined_df st.
        then_do (read_index combined_df st) (\<lambda>index_1 st.
        then_do (reindex medium_1_unique index_1, st) (\<lambda>column_1 st.
        then_do (set_column combined_df ''medium_1_flux'' column_1 st) (\<lambda>_ st.
        then_do (read_index combined_df st) (\<lambda>index_2 st.
        then_do (reindex medium_2_unique index_2, st) (\<lambda>column_2 st.
        then_do (set_column combined_df ''medium_2_flux'' column_2 st) (\<lambda>_ st.
        then_do (fillna_frame 0 combined_df st) (\<lambda>filled_df st.
        then_do (read_column filled_df ''medium_1_flux'' st) (\<lambda>medium_1_flux st.
        then_do (read_column filled_df ''medium_2_flux'' st) (\<lambda>medium_2_flux st.
          (Inr (series_add (series_scale (1 - n) medium_1_flux) (series_scale n medium_2_flux)),
           st))))))))))))))"

text \<open>The two objects a call that returns has added to the store.\<close>

definition objects_made :: "string list \<Rightarrow> series \<Rightarrow> series \<Rightarrow> object list" where
  "objects_made idx A B =
     [CombinedObj \<lparr>cf_index = idx,
                   cf_columns = [(''medium_1_flux'', map (\<lambda>r. (r, map_of A r)) idx),
                                 (''medium_2_flux'', map (\<lambda>r. (r, map_of B r)) idx)]\<rparr>,
      FrameObj [(''medium_1_flux'', fillna 0 (map (\<lambda>r. (r, map_of A r)) idx)),
                (''medium_2_flux'', fillna 0 (map (\<lambda>r. (r, map_of B r)) idx))]]"

section \<open>interpolate\_fluxes in binary64 arithmetic\<close>

text \<open>
  A Python float is an IEEE 754 binary64 number, and each arithmetic operation returns the
  exact result rounded to the nearest such number, ties going to the even significand.
  \<open>f64\<close> is that rounding: the significand has 53 bits, and below \<open>2 ^ (- 1022)\<close> the
  numbers are spaced \<open>2 ^ (- 1074)\<close> apart. Overflow to infinity is not represented: a
  result beyond the largest finite number is rounded as if the exponent had no upper bound.

  \<open>log2_floor n\<close> is the position of the leading bit of \<open>n\<close>, and \<open>binade x\<close> the exponent
  \<open>e\<close> with \<open>2 ^ e \<le> \<bar>x\<bar> < 2 ^ (e + 1)\<close>.
\<close>

function log2_floor :: "int \<Rightarrow> int" where
  "log2_floor n = (if n < 2 then 0 else 1 + log2_floor (n div 2))"
  by pat_completeness auto
termination
  by (relation "measure nat") auto

declare log2_floor.simps [simp del]

definition binade :: "real \<Rightarrow> int" where
  "binade x =
     (let y = \<bar>x\<bar>
      in if 1 \<le> y then log2_floor \<lfloor>y\<rfloor>
         else (let k = log2_floor \<lfloor>1 / y\<rfloor>
               in if y * 2 ^ nat k = 1 then - k else - k - 1))"

definition pow2 :: "int \<Rightarrow> real" where
  "pow2 e = (if 0 \<le> e then 2 ^ nat e else 1 / 2 ^ nat (- e))"

definition round_half_even :: "real \<Rightarrow> int" where
  "round_half_even x =
     (let lo = \<lfloor>x\<rfloor>; d = x - of_int lo
      in if d < 1 / 2 then lo else if 1 / 2 < d then lo + 1 else if even lo then lo else lo + 1)"

definition f64 :: "real \<Rightarrow> real" where
  "f64 x =
     (if x = 0 then 0
      else (let q = max (binade x) (- 1022) - 52
            in of_int (round_half_even (x / pow2 q)) * pow2 q))"

text \<open>Python's \<^verbatim>\<open>x - y\<close>, \<^verbatim>\<open>x * y\<close> and \<^verbatim>\<open>x + y\<close> on floats.\<close>

definition f64_sub :: "real \<Rightarrow> real \<Rightarrow> real" where "f64_sub x y = f64 (x - y)"

definition f64_mul :: "real \<Rightarrow> real \<Rightarrow> real" where "f64_mul x y = f64 (x * y)"

definition f64_add :: "real \<Rightarrow> real \<Rightarrow> real" where "f64_add x y = f64 (x + y)"

text \<open>
  \<open>interpolate_fluxes\<close> evaluates \<^verbatim>\<open>(1 - n) * a + n * b\<close> exactly. \<open>interpolate_fluxes_f64\<close> is
  the same function with the subtraction, the two multiplications and the addition rounded,
  as the source computes them; nothing else differs.
\<close>

definition series_scale_f64 :: "real \<Rightarrow> series \<Rightarrow> series" where
  "series_scale_f64 c s = map (\<lambda>(r, x). (r, f64_mul c x)) s"

definition series_add_f64 :: "series \<Rightarrow> series \<Rightarrow> series" where
  "series_add_f64 s t = map (\<lambda>((r, x), (_, y)). (r, f64_add x y)) (zip s t)"

definition interpolate_fluxes_f64 ::
  "(string list \<Rightarrow> string list \<Rightarrow> string list) \<Rightarrow>
     dataframe \<Rightarrow> dataframe \<Rightarrow> real \<Rightarrow> string \<Rightarrow> string \<Rightarrow> error + series" where
  "interpolate_fluxes_f64 listing medium_1 medium_2 n flux_col_1 flux_col_2 =
     (if \<not> (0 \<le> n \<and> n \<le> 1) then Inl (ValueError ''n must be between 0 and 1'')
      else case getitem medium_1 flux_col_1 of
        Inl e \<Rightarrow> Inl e
      | Inr medium_1_series \<Rightarrow>
         (case getitem medium_2 flux_col_2 of
            Inl e \<Rightarrow> Inl e
          | Inr medium_2_series \<Rightarrow>
             (let all_rxns = listing (map fst medium_1_series) (map fst medium_2_series);
                  medium_1_unique = drop_duplicated medium_1_series;
                  medium_2_unique = drop_duplicated medium_2_series
              in case reindex medium_1_unique all_rxns of
                   Inl e \<Rightarrow> Inl e
                 | Inr medium_1_flux \<Rightarrow>
                    (case reindex medium_2_unique all_rxns of
                       Inl e \<Rightarrow> Inl e
                     | Inr medium_2_flux \<Rightarrow>
                        Inr (series_add_f64 (series_scale_f64 (f64_sub 1 n) (fillna 0 medium_1_flux))
                                            (series_scale_f64 n (fillna 0 medium_2_flux)))))))"

section \<open>calc\_kos\<close>

text \<open>
  A cell of the \<^verbatim>\<open>id\<close> column of the model database is an integer or a string, and
  \<^verbatim>\<open>tax['id'].apply(str)\<close> turns each into Python's \<^verbatim>\<open>str\<close> of it.
\<close>

datatype id_cell = IntId int | StrId string

fun nat_digits :: "nat \<Rightarrow> string" where
  "nat_digits n =
     (if n < 10 then [char_of (48 + n)] else nat_digits (n div 10) @ [char_of (48 + n mod 10)])"

definition int_str :: "int \<Rightarrow> string" where
  "int_str i = (if i < 0 then CHR ''-'' # nat_digits (nat (- i)) else nat_digits (nat i))"

fun py_str :: "id_cell \<Rightarrow> string" where
  "py_str (IntId i) = int_str i"
| "py_str (StrId s) = s"

text \<open>
  A row of \<^verbatim>\<open>agora_df\<close>: its index label, its \<^verbatim>\<open>id\<close> cell and the remaining columns,
  which only the solver reads. \<^verbatim>\<open>tax\<close> is the selected rows with the identifiers as strings.
\<close>

record 'a db_row =
  row_label :: int
  row_id :: id_cell
  row_rest :: 'a

record 'a tax_row =
  tax_label :: int
  tax_id :: string
  tax_rest :: 'a

text \<open>
  \<^verbatim>\<open>agora_df.loc[indices,]\<close>: for each requested label in turn the rows carrying it;
  KeyError when a requested label is not in the index (pandas lists the missing labels in
  the message, which is shortened here).
\<close>

definition loc :: "'a db_row list \<Rightarrow> int list \<Rightarrow> error + 'a db_row list" where
  "loc df labels =
     (if list_all (\<lambda>l. l \<in> set (map row_label df)) labels
      then Inr (concat (map (\<lambda>l. filter (\<lambda>r. row_label r = l) df) labels))
      else Inl (KeyError ''not in index''))"

definition apply_str :: "'a db_row list \<Rightarrow> 'a tax_row list" where
  "apply_str rows =
     map (\<lambda>r. \<lparr>tax_label = row_label r, tax_id = py_str (row_id r), tax_rest = row_rest r\<rparr>) rows"

text \<open>
  The table \<^verbatim>\<open>knockout_taxa\<close> returns: an index of knocked-out taxa and one column per
  taxon, each column holding one cell per index entry. A cell is a relative change or NaN.
\<close>

record wide_table =
  wide_index :: "string list"
  wide_columns :: "(string \<times> real option list) list"

text \<open>
  \<^verbatim>\<open>ko['knockout'] = ko.index\<close>: the frame gains the column \<^verbatim>\<open>knockout\<close> holding the
  index labels. A column that already had that name is overwritten, so it is no longer among
  the value columns.
\<close>

record keyed_table =
  knockout_column :: "string list"
  value_columns :: "(string \<times> real option list) list"

definition set_knockout :: "wide_table \<Rightarrow> keyed_table" where
  "set_knockout ko =
     \<lparr>knockout_column = wide_index ko,
      value_columns = filter (\<lambda>(c, vs). c \<noteq> ''knockout'') (wide_columns ko)\<rparr>"

text \<open>The long frame, and the frames with the columns added to it one after the other.\<close>

record ko_row =
  knockout :: string
  kept :: string
  kept_relative_change :: "real option"

text \<open>
  The \<^verbatim>\<open>error\<close> column holds Python objects: the string the success path stores, or the
  exception the handler stores. \<open>NoneObj\<close> is Python's \<^verbatim>\<open>None\<close>.
\<close>

datatype error_cell = NoneObj | StrObj string | ExcObj error

record ko_error_row = ko_row +
  error :: error_cell

record result_row = ko_error_row +
  SampleID :: string

text \<open>
  \<^verbatim>\<open>ko.melt(id_vars=["knockout"], var_name="kept", value_name="kept_relative_change")\<close>:
  column by column, one row per cell. pandas raises ValueError when the value name is
  already a column of the frame.
\<close>

definition melt :: "keyed_table \<Rightarrow> error + ko_row list" where
  "melt ko =
     (if ''kept_relative_change'' \<in> set (''knockout'' # map fst (value_columns ko))
      then Inl (ValueError ''value_name (kept_relative_change) cannot match an element in the DataFrame columns.'')
      else Inr (concat (map (\<lambda>(c, vs).
                  map (\<lambda>(k, v). \<lparr>knockout = k, kept = c, kept_relative_change = v\<rparr>)
                      (zip (knockout_column ko) vs))
                (value_columns ko))))"

text \<open>\<^verbatim>\<open>dropna()\<close>: the rows without a NaN cell; only the value column can hold one.\<close>

definition dropna :: "ko_row list \<Rightarrow> ko_row list" where
  "dropna rows = filter (\<lambda>r. kept_relative_change r \<noteq> None) rows"

text \<open>\<^verbatim>\<open>ko['error'] = v\<close> and \<^verbatim>\<open>ko['SampleID'] = v\<close>: the same value on every row.\<close>

definition set_error :: "error_cell \<Rightarrow> ko_row list \<Rightarrow> ko_error_row list" where
  "set_error v rows =
     map (\<lambda>r. \<lparr>knockout = knockout r, kept = kept r,
               kept_relative_change = kept_relative_change r, error = v\<rparr>) rows"

definition set_SampleID :: "string \<Rightarrow> ko_error_row list \<Rightarrow> result_row list" where
  "set_SampleID v rows =
     map (\<lambda>r. \<lparr>knockout = knockout r, kept = kept r,
               kept_relative_change = kept_relative_change r, error = error r,
               SampleID = v\<rparr>) rows"

text \<open>
  \<^verbatim>\<open>pd.DataFrame({"knockout": ..., "kept": ..., "kept_relative_change": ...})\<close> from
  three lists: one row per position; pandas raises ValueError unless the lists have one
  length.
\<close>

definition DataFrame :: "string list \<Rightarrow> string list \<Rightarrow> real option list \<Rightarrow> error + ko_row list" where
  "DataFrame knockouts kepts changes =
     (if length knockouts = length kepts \<and> length kepts = length changes
      then Inr (map (\<lambda>(k, c, v). \<lparr>knockout = k, kept = c, kept_relative_change = v\<rparr>)
                    (zip knockouts (zip kepts changes)))
      else Inl (ValueError ''All arrays must be of the same length''))"

text \<open>\<^verbatim>\<open>sep.join(xs)\<close>\<close>

fun str_join :: "string \<Rightarrow> string list \<Rightarrow> string" where
  "str_join sep [] = []"
| "str_join sep [x] = x"
| "str_join sep (x # y # ys) = x @ sep @ str_join sep (y # ys)"

text \<open>
  The micom calls \<^verbatim>\<open>Community(tax)\<close>, \<^verbatim>\<open>com.medium = medium_series\<close> and
  \<^verbatim>\<open>com.knockout_taxa(fraction=1.0, method="relative change", diag=False)\<close> are outside
  the notebook: they are the parameter \<open>community_knockout\<close>, which returns the table or
  the exception raised.

  \<open>try_body\<close> is the body of the \<^verbatim>\<open>try\<close>, \<open>except_body\<close> the handler of
  \<^verbatim>\<open>except Exception as e\<close>; an exception raised inside the handler leaves \<open>calc_kos\<close>.
\<close>

definition try_body ::
  "('a tax_row list \<Rightarrow> series \<Rightarrow> error + wide_table) \<Rightarrow> series \<Rightarrow> 'a tax_row list \<Rightarrow>
     error + ko_error_row list" where
  "try_body community_knockout medium_series tax =
     (case community_knockout tax medium_series of
        Inl e \<Rightarrow> Inl e
      | Inr ko \<Rightarrow>
         (case melt (set_knockout ko) of
            Inl e \<Rightarrow> Inl e
          | Inr long \<Rightarrow> Inr (set_error (StrObj ''None'') (dropna long))))"

definition except_body :: "error \<Rightarrow> 'a tax_row list \<Rightarrow> error + ko_error_row list" where
  "except_body e tax =
     (case DataFrame (map tax_id tax) (rev (map tax_id tax)) (replicate 2 None) of
        Inl e' \<Rightarrow> Inl e'
      | Inr ko \<Rightarrow> Inr (set_error (ExcObj e) ko))"

definition calc_kos ::
  "('a tax_row list \<Rightarrow> series \<Rightarrow> error + wide_table) \<Rightarrow> series \<Rightarrow> 'a db_row list \<Rightarrow> int list \<Rightarrow>
     error + result_row list" where
  "calc_kos community_knockout medium_series agora_df indices =
     (case loc agora_df indices of
        Inl e \<Rightarrow> Inl e
      | Inr rows \<Rightarrow>
         (let tax = apply_str rows;
              outcome = (case try_body community_knockout medium_series tax of
                           Inl e \<Rightarrow> except_body e tax
                         | Inr ko \<Rightarrow> Inr ko)
          in case outcome of
               Inl e \<Rightarrow> Inl e
             | Inr ko \<Rightarrow> Inr (set_SampleID (str_join ''_'' (sort (map tax_id tax))) ko)))"

section \<open>The solver's table\<close>

text \<open>
  The shape assumed of the table that micom's \<^verbatim>\<open>knockout_taxa(diag=False)\<close> returns for a
  community of \<open>N\<close> taxa: \<open>N\<close> rows and \<open>N\<close> columns carrying the same pairwise
  distinct labels in the same order, and NaN in every cell of the diagonal.
\<close>

definition knockout_table :: "nat \<Rightarrow> wide_table \<Rightarrow> bool" where
  "knockout_table N ko \<longleftrightarrow>
     length (wide_index ko) = N \<and> distinct (wide_index ko) \<and>
     map fst (wide_columns ko) = wide_index ko \<and>
     list_all (\<lambda>(c, vs). length vs = N) (wide_columns ko) \<and>
     list_all (\<lambda>i. snd (wide_columns ko ! i) ! i = None) [0..<N]"

text \<open>The number of NaN cells off the diagonal, counted column by column.\<close>

definition undefined_off_diagonal :: "wide_table \<Rightarrow> nat" where
  "undefined_off_diagonal ko =
     sum_list (map (\<lambda>j. length (filter (\<lambda>i. i \<noteq> j \<and> snd (wide_columns ko ! j) ! i = None)
                                         [0..<length (wide_index ko)]))
                   [0..<length (wide_columns ko)])"

section \<open>Example inputs\<close>

text \<open>
  A database of three models, the medium \<open>{R1: 5.0}\<close>, a solver that returns the table of
  the community of the members 3 and 7, and a solver that raises.
\<close>

definition example_db :: "string db_row list" where
  "example_db =
     [\<lparr>row_label = 1, row_id = IntId 7, row_rest = ''seven.json''\<rparr>,
      \<lparr>row_label = 5, row_id = StrId ''12'', row_rest = ''twelve.json''\<rparr>,
      \<lparr>row_label = 10, row_id = IntId 3, row_rest = ''three.json''\<rparr>]"

definition example_medium :: series where
  "example_medium = [(''R1'', 5)]"

definition example_table :: wide_table where
  "example_table =
     \<lparr>wide_index = [''3'', ''7''],
      wide_columns = [(''3'', [None, Some (- 1 / 5)]), (''7'', [Some (- 1 / 10), None])]\<rparr>"

definition example_solver :: "string tax_row list \<Rightarrow> series \<Rightarrow> error + wide_table" where
  "example_solver tax medium_series = Inr example_table"

definition failing_solver :: "string tax_row list \<Rightarrow> series \<Rightarrow> error + wide_table" where
  "failing_solver tax medium_series = Inl (Exception ''infeasible'')"

text \<open>
  The table of the community of all three models, in which the change of member 12 after
  the removal of member 7 is undefined.
\<close>

definition trio_table :: wide_table where
  "trio_table =
     \<lparr>wide_index = [''12'', ''3'', ''7''],
      wide_columns =
        [(''12'', [None, Some (- 1 / 2), None]),
         (''3'', [Some 0, None, Some (- 1 / 5)]),
         (''7'', [Some (1 / 10), Some (- 1 / 10), None])]\<rparr>"

definition trio_solver :: "string tax_row list \<Rightarrow> series \<Rightarrow> error + wide_table" where
  "trio_solver tax medium_series = Inr trio_table"

text \<open>A community with a member whose identifier is the column name \<^verbatim>\<open>knockout\<close>.\<close>

definition clash_db :: "string db_row list" where
  "clash_db =
     [\<lparr>row_label = 0, row_id = StrId ''a'', row_rest = ''a.json''\<rparr>,
      \<lparr>row_label = 1, row_id = StrId ''knockout'', row_rest = ''k.json''\<rparr>]"

definition clash_table :: wide_table where
  "clash_table =
     \<lparr>wide_index = [''a'', ''knockout''],
      wide_columns = [(''a'', [None, Some (1 / 5)]), (''knockout'', [Some (1 / 10), None])]\<rparr>"

definition clash_solver :: "string tax_row list \<Rightarrow> series \<Rightarrow> error + wide_table" where
  "clash_solver tax medium_series = Inr clash_table"

text \<open>
  Flux profiles: one that records the label A twice, the same without the later entry, a
  second profile, and one that records B twice; and a store holding two media of the caller.
\<close>

definition repeating_profile :: series where
  "repeating_profile = [(''C'', 4), (''A'', 1), (''A'', 9)]"

definition repeating_profile_first :: series where
  "repeating_profile_first = [(''C'', 4), (''A'', 1)]"

definition second_profile :: series where
  "second_profile = [(''B'', 2), (''C'', 5)]"

definition twin_profile :: series where
  "twin_profile = [(''B'', 2), (''B'', 7)]"

definition twin_profile_first :: series where
  "twin_profile_first = [(''B'', 2)]"

definition caller_store :: store where
  "caller_store = [FrameObj [(flux, repeating_profile)], FrameObj [(flux, second_profile)]]"

text \<open>A community with a member whose identifier is the column name \<^verbatim>\<open>kept_relative_change\<close>.\<close>

definition value_clash_db :: "string db_row list" where
  "value_clash_db =
     [\<lparr>row_label = 0, row_id = StrId ''a'', row_rest = ''a.json''\<rparr>,
      \<lparr>row_label = 1, row_id = StrId ''kept_relative_change'', row_rest = ''k.json''\<rparr>]"

definition value_clash_table :: wide_table where
  "value_clash_table =
     \<lparr>wide_index = [''a'', ''kept_relative_change''],
      wide_columns = [(''a'', [None, Some (1 / 5)]),
                      (''kept_relative_change'', [Some (1 / 10), None])]\<rparr>"

definition value_clash_solver :: "string tax_row list \<Rightarrow> series \<Rightarrow> error + wide_table" where
  "value_clash_solver tax medium_series = Inr value_clash_table"

section \<open>Properties of interpolate\_fluxes\<close>

subsection \<open>Duplicate resolution and the blended columns\<close>

lemma first_seen_listing_ok: "set_union_listing first_seen_listing"
  by (simp add: set_union_listing_def first_seen_listing_def)

lemma map_of_mask_duplicated:
  "map_of (mask_select (map Not (duplicated seen (map fst s))) s) r =
     (if r \<in> set seen then None else map_of s r)"
proof (induction s arbitrary: seen)
  case Nil
  show ?case by (simp add: mask_select_def)
next
  case (Cons e s)
  obtain k v where e: "e = (k, v)" by (cases e)
  have step: "map_of (mask_select (map Not (duplicated (k # seen) (map fst s))) s) r =
     (if r \<in> set (k # seen) then None else map_of s r)"
    by (rule Cons.IH)
  show ?case
  proof (cases "k \<in> set seen")
    case True
    then show ?thesis using step by (auto simp: e mask_select_def)
  next
    case False
    then show ?thesis using step by (auto simp: e mask_select_def)
  qed
qed

lemma map_of_drop_duplicated: "map_of (drop_duplicated s) = map_of s"
  by (rule ext) (simp add: drop_duplicated_def map_of_mask_duplicated)

lemma keys_mask_duplicated:
  "distinct (map fst (mask_select (map Not (duplicated seen (map fst s))) s)) \<and>
   set (map fst (mask_select (map Not (duplicated seen (map fst s))) s)) = set (map fst s) - set seen"
proof (induction s arbitrary: seen)
  case Nil
  show ?case by (simp add: mask_select_def)
next
  case (Cons e s)
  obtain k v where e: "e = (k, v)" by (cases e)
  note step = Cons.IH [of "k # seen"]
  show ?case
  proof (cases "k \<in> set seen")
    case True
    then show ?thesis using step by (auto simp: e mask_select_def)
  next
    case False
    then show ?thesis using step by (auto simp: e mask_select_def)
  qed
qed

lemma distinct_drop_duplicated: "distinct (map fst (drop_duplicated s))"
  using keys_mask_duplicated [of "[]" s] by (simp add: drop_duplicated_def)

lemma set_drop_duplicated: "set (map fst (drop_duplicated s)) = set (map fst s)"
  using keys_mask_duplicated [of "[]" s] by (simp add: drop_duplicated_def)

lemma lookup_own_labels:
  "distinct (map fst s) \<Longrightarrow>
   map (\<lambda>r. (r, map_of s r)) (map fst s) = map (\<lambda>(r, x). (r, Some x)) s"
proof (induction s)
  case Nil
  show ?case by simp
next
  case (Cons e s)
  obtain k v where e: "e = (k, v)" by (cases e)
  have k: "k \<notin> set (map fst s)" and d: "distinct (map fst s)"
    using Cons.prems by (simp_all add: e)
  have "map (\<lambda>r. (r, map_of ((k, v) # s) r)) (map fst s) = map (\<lambda>r. (r, map_of s r)) (map fst s)"
    using k by (intro map_cong) auto
  then show ?case using Cons.IH [OF d] by (simp add: e)
qed

lemma reindex_distinct:
  "distinct (map fst s) \<Longrightarrow> reindex s idx = Inr (map (\<lambda>r. (r, map_of s r)) idx)"
  by (auto simp: reindex_def lookup_own_labels)

lemma reindex_drop_duplicated:
  "reindex (drop_duplicated s) idx = Inr (map (\<lambda>r. (r, map_of s r)) idx)"
  by (simp add: reindex_distinct distinct_drop_duplicated map_of_drop_duplicated)

lemma blend_columns:
  "series_add (series_scale c (fillna 0 (map (\<lambda>r. (r, map_of s r)) idx)))
              (series_scale d (fillna 0 (map (\<lambda>r. (r, map_of t r)) idx))) =
     map (\<lambda>r. (r, c * recorded s r + d * recorded t r)) idx"
  by (induction idx)
     (simp_all add: series_add_def series_scale_def fillna_def recorded_def)

lemma interpolate_fluxes_value:
  assumes "getitem medium_1 c1 = Inr A" and "getitem medium_2 c2 = Inr B"
    and "0 \<le> f" and "f \<le> 1"
  shows "interpolate_fluxes listing medium_1 medium_2 f c1 c2 =
     Inr (map (\<lambda>r. (r, (1 - f) * recorded A r + f * recorded B r))
              (listing (map fst A) (map fst B)))"
  using assms
  by (simp add: interpolate_fluxes_def Let_def reindex_drop_duplicated blend_columns)

lemma map_of_tabulate: "map_of (map (\<lambda>r. (r, g r)) xs) r = (if r \<in> set xs then Some (g r) else None)"
  by (induction xs) auto

lemma keys_tabulate: "map fst (map (\<lambda>r. (r, g r)) xs) = xs"
  by (induction xs) auto

lemma recorded_first: "r \<notin> fst ` set xs \<Longrightarrow> recorded (xs @ (r, v) # ys) r = v"
  by (simp add: recorded_def map_add_def map_of_eq_None_iff[THEN iffD2] split: option.splits)

lemma recorded_drop_later:
  "recorded (xs @ (r, v) # filter (\<lambda>e. fst e \<noteq> r) ys) k = recorded (xs @ (r, v) # ys) k"
proof -
  have "map_of (filter (\<lambda>e. fst e \<noteq> r) ys) k = map_of ys k" if "k \<noteq> r"
    using that by (induction ys) auto
  then show ?thesis
    by (cases "k = r") (simp_all add: recorded_def map_add_def split: option.splits)
qed

lemma labels_drop_later:
  "set (map fst (xs @ (r, v) # filter (\<lambda>e. fst e \<noteq> r) ys)) = set (map fst (xs @ (r, v) # ys))"
  by auto

lemma count_list_distinct: "distinct xs \<Longrightarrow> x \<in> set xs \<Longrightarrow> count_list xs x = 1"
  by (induction xs) (auto simp: count_list_0_iff)

subsection \<open>Listings\<close>

lemma last_seen_listing_ok: "set_union_listing last_seen_listing"
  by (simp add: set_union_listing_def last_seen_listing_def)

lemma listing_mset:
  assumes "set_union_listing listing" and "set_union_listing listing'"
  shows "mset (listing' a b) = mset (listing a b)"
proof -
  have "distinct (listing a b)" "distinct (listing' a b)" "set (listing' a b) = set (listing a b)"
    using assms by (simp_all add: set_union_listing_def)
  then show ?thesis by (simp add: set_eq_iff_mset_eq_distinct)
qed

lemma getitem_flux: "getitem [(flux, s)] flux = Inr s"
  by (simp add: getitem_def)

subsection \<open>The store after a call\<close>

lemma then_do_Inr: "then_do (Inr x, st) rest = rest x st"
  by (simp add: then_do_def)

lemma then_do_Inl: "then_do (Inl e, st) rest = (Inl e, st)"
  by (simp add: then_do_def)

lemma read_column_frame:
  "a < length st \<Longrightarrow> st ! a = FrameObj df \<Longrightarrow> read_column a col st = (getitem df col, st)"
  by (simp add: read_column_def frame_at_def)

lemma read_index_combined:
  "a < length st \<Longrightarrow> st ! a = CombinedObj cf \<Longrightarrow> read_index a st = (Inr (cf_index cf), st)"
  by (simp add: read_index_def combined_at_def)

lemma set_column_own_index:
  "a < length st \<Longrightarrow> st ! a = CombinedObj cf \<Longrightarrow> map fst s = cf_index cf \<Longrightarrow>
   set_column a col s st =
     (Inr (), st[a := CombinedObj (cf\<lparr>cf_columns := put_column col s (cf_columns cf)\<rparr>)])"
  by (simp add: set_column_def combined_at_def align_def)

lemma fillna_frame_combined:
  "a < length st \<Longrightarrow> st ! a = CombinedObj cf \<Longrightarrow>
   fillna_frame v a st =
     (Inr (length st), st @ [FrameObj (map (\<lambda>(c, s). (c, fillna v s)) (cf_columns cf))])"
  by (simp add: fillna_frame_def combined_at_def)

lemma interpolate_fluxes_store_run:
  assumes "medium_1 < length st" and "st ! medium_1 = FrameObj df1"
    and "medium_2 < length st" and "st ! medium_2 = FrameObj df2"
    and "getitem df1 c1 = Inr A" and "getitem df2 c2 = Inr B"
    and "0 \<le> f" and "f \<le> 1"
  shows "interpolate_fluxes_store listing st medium_1 medium_2 f c1 c2 =
     (Inr (map (\<lambda>r. (r, (1 - f) * recorded A r + f * recorded B r)) (listing (map fst A) (map fst B))),
      st @ objects_made (listing (map fst A) (map fst B)) A B)"
proof -
  let ?idx = "listing (map fst A) (map fst B)"
  let ?colA = "map (\<lambda>r. (r, map_of A r)) ?idx" and ?colB = "map (\<lambda>r. (r, map_of B r)) ?idx"
  let ?c = "length st"
  let ?cf0 = "\<lparr>cf_index = ?idx, cf_columns = []\<rparr>"
  let ?cf1 = "\<lparr>cf_index = ?idx, cf_columns = [(''medium_1_flux'', ?colA)]\<rparr>"
  let ?cf2 = "\<lparr>cf_index = ?idx,
               cf_columns = [(''medium_1_flux'', ?colA), (''medium_2_flux'', ?colB)]\<rparr>"
  let ?filled = "[(''medium_1_flux'', fillna 0 ?colA), (''medium_2_flux'', fillna 0 ?colB)]"
  let ?st1 = "st @ [CombinedObj ?cf0]" and ?st2 = "st @ [CombinedObj ?cf1]"
  let ?st3 = "st @ [CombinedObj ?cf2]"
  let ?st4 = "?st3 @ [FrameObj ?filled]"
  have s1: "read_column medium_1 c1 st = (Inr A, st)"
    using assms(1,2,5) by (simp add: read_column_frame)
  have s2: "read_column medium_2 c2 st = (Inr B, st)"
    using assms(3,4,6) by (simp add: read_column_frame)
  have s3: "new_combined ?idx st = (Inr ?c, ?st1)"
    by (simp add: new_combined_def)
  have s4: "read_index ?c ?st1 = (Inr ?idx, ?st1)"
    by (simp add: read_index_combined)
  have s5: "reindex (drop_duplicated A) ?idx = Inr ?colA"
    by (rule reindex_drop_duplicated)
  have s6: "set_column ?c ''medium_1_flux'' ?colA ?st1 = (Inr (), ?st2)"
    by (subst set_column_own_index [where cf = ?cf0])
       (simp_all add: put_column_def comp_def)
  have s7: "read_index ?c ?st2 = (Inr ?idx, ?st2)"
    by (simp add: read_index_combined)
  have s8: "reindex (drop_duplicated B) ?idx = Inr ?colB"
    by (rule reindex_drop_duplicated)
  have s9: "set_column ?c ''medium_2_flux'' ?colB ?st2 = (Inr (), ?st3)"
    by (subst set_column_own_index [where cf = ?cf1])
       (simp_all add: put_column_def comp_def)
  have s10: "fillna_frame 0 ?c ?st3 = (Inr (Suc ?c), ?st4)"
    by (subst fillna_frame_combined [where cf = ?cf2]) simp_all
  have s11: "read_column (Suc ?c) ''medium_1_flux'' ?st4 = (Inr (fillna 0 ?colA), ?st4)"
    by (subst read_column_frame [where df = ?filled]) (simp_all add: nth_append getitem_def)
  have s12: "read_column (Suc ?c) ''medium_2_flux'' ?st4 = (Inr (fillna 0 ?colB), ?st4)"
    by (subst read_column_frame [where df = ?filled]) (simp_all add: nth_append getitem_def)
  have "interpolate_fluxes_store listing st medium_1 medium_2 f c1 c2 =
      (Inr (series_add (series_scale (1 - f) (fillna 0 ?colA)) (series_scale f (fillna 0 ?colB))), ?st4)"
    unfolding interpolate_fluxes_store_def using assms(7,8)
    by (simp only: s1 s2 s3 s4 s5 s6 s7 s8 s9 s10 s11 s12 then_do_Inr Let_def simp_thms if_False)
  then show ?thesis
    by (simp only: blend_columns objects_made_def) simp
qed

lemma interpolate_fluxes_store_error:
  assumes "medium_1 < length st" and "st ! medium_1 = FrameObj df1"
    and "medium_2 < length st" and "st ! medium_2 = FrameObj df2"
    and "interpolate_fluxes listing df1 df2 f c1 c2 = Inl e"
  shows "interpolate_fluxes_store listing st medium_1 medium_2 f c1 c2 = (Inl e, st)"
proof (cases "0 \<le> f \<and> f \<le> 1")
  case False
  then show ?thesis using assms(5)
    by (simp add: interpolate_fluxes_store_def interpolate_fluxes_def)
next
  case range: True
  show ?thesis
  proof (cases "getitem df1 c1")
    case (Inl e1)
    then show ?thesis using assms range
      by (simp add: interpolate_fluxes_store_def interpolate_fluxes_def read_column_frame then_do_Inl)
  next
    case A: (Inr A)
    show ?thesis
    proof (cases "getitem df2 c2")
      case (Inl e2)
      then show ?thesis using assms range A
        by (simp add: interpolate_fluxes_store_def interpolate_fluxes_def read_column_frame
            then_do_Inl then_do_Inr)
    next
      case (Inr B)
      then have "interpolate_fluxes listing df1 df2 f c1 c2 \<noteq> Inl e"
        using A range by (simp add: interpolate_fluxes_value)
      then show ?thesis using assms(5) by simp
    qed
  qed
qed

subsection \<open>Rounded arithmetic\<close>

lemma round_half_even_nonneg: "0 \<le> x \<Longrightarrow> 0 \<le> round_half_even x"
  by (auto simp: round_half_even_def Let_def)

lemma round_half_even_le: "x \<le> of_int N \<Longrightarrow> round_half_even x \<le> N"
proof -
  assume x: "x \<le> of_int N"
  then have lo: "\<lfloor>x\<rfloor> \<le> N" by (simp add: floor_le_iff)
  have "\<lfloor>x\<rfloor> + 1 \<le> N" if "0 < x - of_int \<lfloor>x\<rfloor>"
  proof -
    have "of_int \<lfloor>x\<rfloor> < (of_int N :: real)" using that x by linarith
    then have "\<lfloor>x\<rfloor> < N" by simp
    then show ?thesis by simp
  qed
  then show ?thesis using lo by (auto simp: round_half_even_def Let_def)
qed

lemma log2_floor_nonneg: "0 \<le> log2_floor n"
proof (induction n rule: log2_floor.induct)
  case (1 n)
  then show ?case by (subst log2_floor.simps) simp
qed

lemma binade_le_0:
  assumes "\<bar>x\<bar> \<le> 1"
  shows "binade x \<le> 0"
proof (cases "1 \<le> \<bar>x\<bar>")
  case True
  then have "\<bar>x\<bar> = 1" using assms by simp
  then show ?thesis by (simp add: binade_def log2_floor.simps [of 1])
next
  case False
  then show ?thesis
    using log2_floor_nonneg [of "\<lfloor>1 / \<bar>x\<bar>\<rfloor>"] by (simp add: binade_def Let_def)
qed

lemma f64_unit_interval:
  assumes "0 \<le> x" and "x \<le> 1"
  shows "0 \<le> f64 x \<and> f64 x \<le> 1"
proof (cases "x = 0")
  case True
  then show ?thesis by (simp add: f64_def)
next
  case False
  define q where "q = max (binade x) (- 1022) - 52"
  define n where "n = nat (- q)"
  have "binade x \<le> 0" using assms by (intro binade_le_0) simp
  then have q: "q < 0" by (simp add: q_def)
  then have p: "pow2 q = 1 / 2 ^ n" by (simp add: pow2_def n_def)
  have val: "f64 x = of_int (round_half_even (x * 2 ^ n)) / 2 ^ n"
    using False by (simp add: f64_def Let_def q_def [symmetric] p)
  have "0 \<le> x * 2 ^ n" using assms(1) by simp
  then have lo: "0 \<le> round_half_even (x * 2 ^ n)" by (rule round_half_even_nonneg)
  have "x * 2 ^ n \<le> of_int (2 ^ n)" using assms(2) by (simp add: mult_le_cancel_right1)
  then have "round_half_even (x * 2 ^ n) \<le> 2 ^ n" by (rule round_half_even_le)
  then have hi: "(of_int (round_half_even (x * 2 ^ n)) :: real) \<le> 2 ^ n"
    by (metis of_int_le_iff of_int_numeral of_int_power)
  show ?thesis using lo hi by (simp add: val divide_le_eq_1)
qed

lemma f64_sub_unit_interval: "0 \<le> f \<Longrightarrow> f \<le> 1 \<Longrightarrow> 0 \<le> f64_sub 1 f \<and> f64_sub 1 f \<le> 1"
  unfolding f64_sub_def by (rule f64_unit_interval) simp_all

lemma f64_add_commute: "f64_add x y = f64_add y x"
  by (simp add: f64_add_def add.commute)

lemma blend_columns_f64:
  "series_add_f64 (series_scale_f64 c (fillna 0 (map (\<lambda>r. (r, map_of s r)) idx)))
                  (series_scale_f64 d (fillna 0 (map (\<lambda>r. (r, map_of t r)) idx))) =
     map (\<lambda>r. (r, f64_add (f64_mul c (recorded s r)) (f64_mul d (recorded t r)))) idx"
  by (induction idx)
     (simp_all add: series_add_f64_def series_scale_f64_def fillna_def recorded_def)

lemma interpolate_fluxes_f64_value:
  assumes "getitem medium_1 c1 = Inr A" and "getitem medium_2 c2 = Inr B"
    and "0 \<le> f" and "f \<le> 1"
  shows "interpolate_fluxes_f64 listing medium_1 medium_2 f c1 c2 =
     Inr (map (\<lambda>r. (r, f64_add (f64_mul (f64_sub 1 f) (recorded A r)) (f64_mul f (recorded B r))))
              (listing (map fst A) (map fst B)))"
  using assms
  by (simp add: interpolate_fluxes_f64_def Let_def reindex_drop_duplicated blend_columns_f64)

subsection \<open>Union of labels and affine values\<close>



subsection \<open>The range check\<close>

text \<open>
  Claim C3. A factor below 0 or above 1 makes the call raise the ValueError of the range
  check, whatever the two frames and column names are: the check is the first statement of
  the function, so no column is read and no Series is produced.
\<close>

theorem interpolate_rejects_factor:
  "f < 0 \<or> 1 < f \<Longrightarrow>
   interpolate_fluxes listing medium_1 medium_2 f c1 c2 = Inl (ValueError ''n must be between 0 and 1'')"
  by (auto simp: interpolate_fluxes_def)

theorem interpolate_rejects_factor_witness:
  "((- 1 / 10 :: real) < 0 \<or> 1 < (- 1 / 10 :: real)) \<and>
   ((11 / 10 :: real) < 0 \<or> 1 < (11 / 10 :: real)) \<and>
   interpolate_fluxes first_seen_listing [(flux, [(''R1'', 10)])] [(flux, [(''R1'', 0)])] (- 1 / 10) flux flux
     = Inl (ValueError ''n must be between 0 and 1'') \<and>
   interpolate_fluxes first_seen_listing [(flux, [(''R1'', 10)])] [(flux, [(''R1'', 0)])] (11 / 10) flux flux
     = Inl (ValueError ''n must be between 0 and 1'')"
proof -
  have lo: "(- 1 / 10 :: real) < 0 \<or> 1 < (- 1 / 10 :: real)" by simp
  have hi: "(11 / 10 :: real) < 0 \<or> 1 < (11 / 10 :: real)" by simp
  show ?thesis
    using lo hi interpolate_rejects_factor [OF lo] interpolate_rejects_factor [OF hi] by simp
qed

subsection \<open>End points, determinism and the caller's objects\<close>

text \<open>
  Claim C7. With factor 0 the result holds, under every label of the union, the value the
  first profile contributes (its first recorded value, 0 when absent); with factor 1 the
  value the second profile contributes.

  The call has no effect on what the caller holds: run on a store in which the two media
  sit at the addresses \<open>a1\<close> and \<open>a2\<close>, it returns the value \<open>interpolate_fluxes\<close> computes
  from the two media alone and a store that keeps every object of the caller as it was,
  the objects the call has made being added behind them; a call that raises leaves the
  store as it is. Calling again, on the store the first call left,
  returns the identical Series. The order in which Python lists the set of labels is the
  one thing left open, and it decides nothing but the order of the entries: under another
  admissible listing the call returns the same entries.
\<close>

theorem interpolate_endpoints:
  assumes "set_union_listing listing" and "set_union_listing listing'"
    and "a1 < length st" and "st ! a1 = FrameObj medium_1"
    and "a2 < length st" and "st ! a2 = FrameObj medium_2"
    and "getitem medium_1 c1 = Inr A" and "getitem medium_2 c2 = Inr B"
    and "0 \<le> f" and "f \<le> 1"
  shows "\<exists>out0 out1 out out' st' st'' st_other.
           interpolate_fluxes listing medium_1 medium_2 0 c1 c2 = Inr out0 \<and>
           interpolate_fluxes listing medium_1 medium_2 1 c1 c2 = Inr out1 \<and>
           set (map fst out0) = set (map fst A) \<union> set (map fst B) \<and>
           set (map fst out1) = set (map fst A) \<union> set (map fst B) \<and>
           (\<forall>r \<in> set (map fst A) \<union> set (map fst B).
              map_of out0 r = Some (recorded A r) \<and> map_of out1 r = Some (recorded B r)) \<and>
           interpolate_fluxes listing medium_1 medium_2 f c1 c2 = Inr out \<and>
           interpolate_fluxes_store listing st a1 a2 f c1 c2 = (Inr out, st') \<and>
           take (length st) st' = st \<and>
           interpolate_fluxes_store listing st' a1 a2 f c1 c2 = (Inr out, st'') \<and>
           interpolate_fluxes_store listing' st a1 a2 f c1 c2 = (Inr out', st_other) \<and>
           mset out' = mset out \<and> map_of out' = map_of out \<and>
           (\<forall>g c c' e. interpolate_fluxes listing medium_1 medium_2 g c c' = Inl e \<longrightarrow>
              interpolate_fluxes_store listing st a1 a2 g c c' = (Inl e, st))"
proof -
  let ?U = "set (map fst A) \<union> set (map fst B)"
  let ?idx = "listing (map fst A) (map fst B)" and ?idx' = "listing' (map fst A) (map fst B)"
  let ?val = "\<lambda>n r. (r, (1 - n) * recorded A r + n * recorded B r)"
  let ?zero = "map (?val 0) ?idx" and ?one = "map (?val 1) ?idx"
  let ?out = "map (?val f) ?idx" and ?out' = "map (?val f) ?idx'"
  let ?st' = "st @ objects_made ?idx A B"
  have run0: "interpolate_fluxes listing medium_1 medium_2 0 c1 c2 = Inr ?zero"
    using assms(7,8) by (rule interpolate_fluxes_value) simp_all
  have run1: "interpolate_fluxes listing medium_1 medium_2 1 c1 c2 = Inr ?one"
    using assms(7,8) by (rule interpolate_fluxes_value) simp_all
  have idx: "set ?idx = ?U"
    using assms(1) by (simp add: set_union_listing_def)
  have k0: "set (map fst ?zero) = ?U" by (simp only: keys_tabulate idx)
  have k1: "set (map fst ?one) = ?U" by (simp only: keys_tabulate idx)
  have v: "\<forall>r \<in> ?U. map_of ?zero r = Some (recorded A r) \<and> map_of ?one r = Some (recorded B r)"
    by (simp only: map_of_tabulate idx) simp
  have run: "interpolate_fluxes listing medium_1 medium_2 f c1 c2 = Inr ?out"
    using assms(7-10) by (rule interpolate_fluxes_value)
  have first: "interpolate_fluxes_store listing st a1 a2 f c1 c2 = (Inr ?out, ?st')"
    using assms(3-10) by (rule interpolate_fluxes_store_run)
  have kept: "take (length st) ?st' = st" by simp
  have "a1 < length ?st'" "?st' ! a1 = FrameObj medium_1"
       "a2 < length ?st'" "?st' ! a2 = FrameObj medium_2"
    using assms(3-6) by (simp_all add: nth_append)
  then have again: "interpolate_fluxes_store listing ?st' a1 a2 f c1 c2
      = (Inr ?out, ?st' @ objects_made ?idx A B)"
    using assms(7-10) by (rule interpolate_fluxes_store_run)
  have other: "interpolate_fluxes_store listing' st a1 a2 f c1 c2
      = (Inr ?out', st @ objects_made ?idx' A B)"
    using assms(3-10) by (rule interpolate_fluxes_store_run)
  have same: "mset ?out' = mset ?out"
    using listing_mset [OF assms(1,2)] by (metis mset_map)
  have idx': "set ?idx' = ?U"
    using assms(2) by (simp add: set_union_listing_def)
  have same_map: "map_of ?out' = map_of ?out"
    by (rule ext) (simp only: map_of_tabulate idx idx')
  have bad: "\<forall>g c c' e. interpolate_fluxes listing medium_1 medium_2 g c c' = Inl e \<longrightarrow>
      interpolate_fluxes_store listing st a1 a2 g c c' = (Inl e, st)"
    using interpolate_fluxes_store_error [OF assms(3-6)] by blast
  show ?thesis using run0 run1 k0 k1 v run first kept again other same same_map bad by blast
qed

theorem interpolate_endpoints_witness:
  "set_union_listing first_seen_listing \<and> set_union_listing last_seen_listing \<and>
   0 < length caller_store \<and> caller_store ! 0 = FrameObj [(flux, repeating_profile)] \<and>
   1 < length caller_store \<and> caller_store ! 1 = FrameObj [(flux, second_profile)] \<and>
   getitem [(flux, repeating_profile)] flux = Inr repeating_profile \<and>
   getitem [(flux, second_profile)] flux = Inr second_profile \<and>
   (0::real) \<le> 1 / 2 \<and> (1 / 2 :: real) \<le> 1 \<and>
   (\<exists>out0 out1 out out' st' st'' st_other.
      interpolate_fluxes first_seen_listing [(flux, repeating_profile)] [(flux, second_profile)]
         0 flux flux = Inr out0 \<and>
      interpolate_fluxes first_seen_listing [(flux, repeating_profile)] [(flux, second_profile)]
         1 flux flux = Inr out1 \<and>
      map_of out0 ''A'' = Some 1 \<and> map_of out0 ''B'' = Some 0 \<and> map_of out0 ''C'' = Some 4 \<and>
      map_of out1 ''A'' = Some 0 \<and> map_of out1 ''B'' = Some 2 \<and> map_of out1 ''C'' = Some 5 \<and>
      interpolate_fluxes_store first_seen_listing caller_store 0 1 (1 / 2) flux flux = (Inr out, st') \<and>
      take (length caller_store) st' = caller_store \<and>
      interpolate_fluxes_store first_seen_listing st' 0 1 (1 / 2) flux flux = (Inr out, st'') \<and>
      interpolate_fluxes_store last_seen_listing caller_store 0 1 (1 / 2) flux flux
        = (Inr out', st_other) \<and>
      mset out' = mset out)"
proof -
  let ?A = repeating_profile and ?B = second_profile
  have l: "set_union_listing first_seen_listing" by (rule first_seen_listing_ok)
  have l': "set_union_listing last_seen_listing" by (rule last_seen_listing_ok)
  have a1: "0 < length caller_store" "caller_store ! 0 = FrameObj [(flux, ?A)]"
    by (simp_all add: caller_store_def)
  have a2: "1 < length caller_store" "caller_store ! 1 = FrameObj [(flux, ?B)]"
    by (simp_all add: caller_store_def)
  have g1: "getitem [(flux, ?A)] flux = Inr ?A" by (rule getitem_flux)
  have g2: "getitem [(flux, ?B)] flux = Inr ?B" by (rule getitem_flux)
  have f: "(0::real) \<le> 1 / 2" "(1 / 2 :: real) \<le> 1" by simp_all
  from interpolate_endpoints [OF l l' a1 a2 g1 g2 f]
  obtain out0 out1 out out' st' st'' st_other where
    r0: "interpolate_fluxes first_seen_listing [(flux, ?A)] [(flux, ?B)] 0 flux flux = Inr out0" and
    r1: "interpolate_fluxes first_seen_listing [(flux, ?A)] [(flux, ?B)] 1 flux flux = Inr out1" and
    v: "\<forall>r \<in> set (map fst ?A) \<union> set (map fst ?B).
         map_of out0 r = Some (recorded ?A r) \<and> map_of out1 r = Some (recorded ?B r)" and
    s: "interpolate_fluxes_store first_seen_listing caller_store 0 1 (1 / 2) flux flux = (Inr out, st')" and
    t: "take (length caller_store) st' = caller_store" and
    s2: "interpolate_fluxes_store first_seen_listing st' 0 1 (1 / 2) flux flux = (Inr out, st'')" and
    s3: "interpolate_fluxes_store last_seen_listing caller_store 0 1 (1 / 2) flux flux = (Inr out', st_other)" and
    m: "mset out' = mset out"
    by blast
  have vals: "map_of out0 ''A'' = Some 1 \<and> map_of out0 ''B'' = Some 0 \<and> map_of out0 ''C'' = Some 4 \<and>
       map_of out1 ''A'' = Some 0 \<and> map_of out1 ''B'' = Some 2 \<and> map_of out1 ''C'' = Some 5"
    using v by (simp add: recorded_def repeating_profile_def second_profile_def)
  have "interpolate_fluxes first_seen_listing [(flux, ?A)] [(flux, ?B)] 0 flux flux = Inr out0 \<and>
      interpolate_fluxes first_seen_listing [(flux, ?A)] [(flux, ?B)] 1 flux flux = Inr out1 \<and>
      map_of out0 ''A'' = Some 1 \<and> map_of out0 ''B'' = Some 0 \<and> map_of out0 ''C'' = Some 4 \<and>
      map_of out1 ''A'' = Some 0 \<and> map_of out1 ''B'' = Some 2 \<and> map_of out1 ''C'' = Some 5 \<and>
      interpolate_fluxes_store first_seen_listing caller_store 0 1 (1 / 2) flux flux = (Inr out, st') \<and>
      take (length caller_store) st' = caller_store \<and>
      interpolate_fluxes_store first_seen_listing st' 0 1 (1 / 2) flux flux = (Inr out, st'') \<and>
      interpolate_fluxes_store last_seen_listing caller_store 0 1 (1 / 2) flux flux
        = (Inr out', st_other) \<and>
      mset out' = mset out"
    by (intro conjI r0 r1 s t s2 s3 m vals [THEN conjunct1] vals [THEN conjunct2, THEN conjunct1]
        vals [THEN conjunct2, THEN conjunct2, THEN conjunct1]
        vals [THEN conjunct2, THEN conjunct2, THEN conjunct2, THEN conjunct1]
        vals [THEN conjunct2, THEN conjunct2, THEN conjunct2, THEN conjunct2, THEN conjunct1]
        vals [THEN conjunct2, THEN conjunct2, THEN conjunct2, THEN conjunct2, THEN conjunct2])
  then have "\<exists>out0 out1 out out' st' st'' st_other.
      interpolate_fluxes first_seen_listing [(flux, ?A)] [(flux, ?B)] 0 flux flux = Inr out0 \<and>
      interpolate_fluxes first_seen_listing [(flux, ?A)] [(flux, ?B)] 1 flux flux = Inr out1 \<and>
      map_of out0 ''A'' = Some 1 \<and> map_of out0 ''B'' = Some 0 \<and> map_of out0 ''C'' = Some 4 \<and>
      map_of out1 ''A'' = Some 0 \<and> map_of out1 ''B'' = Some 2 \<and> map_of out1 ''C'' = Some 5 \<and>
      interpolate_fluxes_store first_seen_listing caller_store 0 1 (1 / 2) flux flux = (Inr out, st') \<and>
      take (length caller_store) st' = caller_store \<and>
      interpolate_fluxes_store first_seen_listing st' 0 1 (1 / 2) flux flux = (Inr out, st'') \<and>
      interpolate_fluxes_store last_seen_listing caller_store 0 1 (1 / 2) flux flux
        = (Inr out', st_other) \<and>
      mset out' = mset out"
    by (intro exI)
  then show ?thesis
    by (intro conjI l l' a1 a2 g1 g2 f)
qed

subsection \<open>First occurrence wins\<close>

text \<open>
  Claim C8. The call returns also when a profile repeats labels, and whenever a label \<open>r\<close>
  occurs in a profile, the result under \<open>r\<close> is computed from the value at the first
  position carrying \<open>r\<close>, whatever follows that position; deleting all later entries
  labelled \<open>r\<close> from the profile changes no value of the result. This holds for the first
  profile beside any second one and for the second profile beside any first one.
\<close>

theorem interpolate_first_occurrence:
  assumes "set_union_listing listing"
    and "getitem medium_1 c1 = Inr A" and "getitem medium_2 c2 = Inr B"
    and "0 \<le> f" and "f \<le> 1"
  shows "\<exists>out. interpolate_fluxes listing medium_1 medium_2 f c1 c2 = Inr out \<and>
     (\<forall>xs r v ys. A = xs @ (r, v) # ys \<and> r \<notin> fst ` set xs \<longrightarrow>
        map_of out r = Some ((1 - f) * v + f * recorded B r) \<and>
        (\<forall>medium_1'. getitem medium_1' c1 = Inr (xs @ (r, v) # filter (\<lambda>e. fst e \<noteq> r) ys) \<longrightarrow>
           (\<exists>out'. interpolate_fluxes listing medium_1' medium_2 f c1 c2 = Inr out' \<and>
                   map_of out' = map_of out))) \<and>
     (\<forall>xs r w ys. B = xs @ (r, w) # ys \<and> r \<notin> fst ` set xs \<longrightarrow>
        map_of out r = Some ((1 - f) * recorded A r + f * w) \<and>
        (\<forall>medium_2'. getitem medium_2' c2 = Inr (xs @ (r, w) # filter (\<lambda>e. fst e \<noteq> r) ys) \<longrightarrow>
           (\<exists>out'. interpolate_fluxes listing medium_1 medium_2' f c1 c2 = Inr out' \<and>
                   map_of out' = map_of out)))"
proof -
  let ?g = "\<lambda>k. (1 - f) * recorded A k + f * recorded B k"
  let ?out = "map (\<lambda>k. (k, ?g k)) (listing (map fst A) (map fst B))"
  have run: "interpolate_fluxes listing medium_1 medium_2 f c1 c2 = Inr ?out"
    using assms(2-5) by (rule interpolate_fluxes_value)
  have idx: "set (listing a b) = set a \<union> set b" for a b
    using assms(1) by (simp add: set_union_listing_def)
  have first: "map_of ?out r = Some ((1 - f) * v + f * recorded B r) \<and>
        (\<forall>medium_1'. getitem medium_1' c1 = Inr (xs @ (r, v) # filter (\<lambda>e. fst e \<noteq> r) ys) \<longrightarrow>
           (\<exists>out'. interpolate_fluxes listing medium_1' medium_2 f c1 c2 = Inr out' \<and>
                   map_of out' = map_of ?out))"
    if A: "A = xs @ (r, v) # ys" and r: "r \<notin> fst ` set xs" for xs r v ys
  proof
    have "r \<in> set (listing (map fst A) (map fst B))" by (simp add: idx A)
    moreover have "recorded A r = v" unfolding A using r by (rule recorded_first)
    ultimately show "map_of ?out r = Some ((1 - f) * v + f * recorded B r)"
      by (simp only: map_of_tabulate if_True)
  next
    let ?A' = "xs @ (r, v) # filter (\<lambda>e. fst e \<noteq> r) ys"
    show "\<forall>medium_1'. getitem medium_1' c1 = Inr ?A' \<longrightarrow>
           (\<exists>out'. interpolate_fluxes listing medium_1' medium_2 f c1 c2 = Inr out' \<and>
                   map_of out' = map_of ?out)"
    proof (intro allI impI)
      fix medium_1' assume g: "getitem medium_1' c1 = Inr ?A'"
      let ?out' = "map (\<lambda>k. (k, (1 - f) * recorded ?A' k + f * recorded B k))
                       (listing (map fst ?A') (map fst B))"
      have run': "interpolate_fluxes listing medium_1' medium_2 f c1 c2 = Inr ?out'"
        using g assms(3-5) by (rule interpolate_fluxes_value)
      have same: "?out' = map (\<lambda>k. (k, ?g k)) (listing (map fst ?A') (map fst B))"
        unfolding A by (simp only: recorded_drop_later)
      have labels: "set (listing (map fst ?A') (map fst B)) = set (listing (map fst A) (map fst B))"
        unfolding A by (simp only: idx labels_drop_later)
      have "map_of ?out' = map_of ?out"
        by (rule ext) (simp only: same map_of_tabulate labels)
      then show "\<exists>out'. interpolate_fluxes listing medium_1' medium_2 f c1 c2 = Inr out' \<and>
                   map_of out' = map_of ?out"
        using run' by blast
    qed
  qed
  have second: "map_of ?out r = Some ((1 - f) * recorded A r + f * w) \<and>
        (\<forall>medium_2'. getitem medium_2' c2 = Inr (xs @ (r, w) # filter (\<lambda>e. fst e \<noteq> r) ys) \<longrightarrow>
           (\<exists>out'. interpolate_fluxes listing medium_1 medium_2' f c1 c2 = Inr out' \<and>
                   map_of out' = map_of ?out))"
    if B: "B = xs @ (r, w) # ys" and r: "r \<notin> fst ` set xs" for xs r w ys
  proof
    have "r \<in> set (listing (map fst A) (map fst B))" by (simp add: idx B)
    moreover have "recorded B r = w" unfolding B using r by (rule recorded_first)
    ultimately show "map_of ?out r = Some ((1 - f) * recorded A r + f * w)"
      by (simp only: map_of_tabulate if_True)
  next
    let ?B' = "xs @ (r, w) # filter (\<lambda>e. fst e \<noteq> r) ys"
    show "\<forall>medium_2'. getitem medium_2' c2 = Inr ?B' \<longrightarrow>
           (\<exists>out'. interpolate_fluxes listing medium_1 medium_2' f c1 c2 = Inr out' \<and>
                   map_of out' = map_of ?out)"
    proof (intro allI impI)
      fix medium_2' assume g: "getitem medium_2' c2 = Inr ?B'"
      let ?out' = "map (\<lambda>k. (k, (1 - f) * recorded A k + f * recorded ?B' k))
                       (listing (map fst A) (map fst ?B'))"
      have run': "interpolate_fluxes listing medium_1 medium_2' f c1 c2 = Inr ?out'"
        using assms(2) g assms(4,5) by (rule interpolate_fluxes_value)
      have same: "?out' = map (\<lambda>k. (k, ?g k)) (listing (map fst A) (map fst ?B'))"
        unfolding B by (simp only: recorded_drop_later)
      have labels: "set (listing (map fst A) (map fst ?B')) = set (listing (map fst A) (map fst B))"
        unfolding B by (simp only: idx labels_drop_later)
      have "map_of ?out' = map_of ?out"
        by (rule ext) (simp only: same map_of_tabulate labels)
      then show "\<exists>out'. interpolate_fluxes listing medium_1 medium_2' f c1 c2 = Inr out' \<and>
                   map_of out' = map_of ?out"
        using run' by blast
    qed
  qed
  show ?thesis using run first second by blast
qed

theorem interpolate_first_occurrence_witness:
  "set_union_listing first_seen_listing \<and>
   getitem [(flux, repeating_profile)] flux = Inr repeating_profile \<and>
   getitem [(flux, [])] flux = Inr [] \<and>
   getitem [(flux, twin_profile)] flux = Inr twin_profile \<and>
   (0::real) \<le> 1 / 2 \<and> (1 / 2 :: real) \<le> 1 \<and>
   (\<exists>out out'.
      interpolate_fluxes first_seen_listing [(flux, repeating_profile)] [(flux, [])]
         (1 / 2) flux flux = Inr out \<and>
      map_of out ''A'' = Some (1 / 2) \<and>
      interpolate_fluxes first_seen_listing [(flux, repeating_profile_first)] [(flux, [])]
         (1 / 2) flux flux = Inr out' \<and>
      map_of out' = map_of out) \<and>
   (\<exists>out out'.
      interpolate_fluxes first_seen_listing [(flux, [])] [(flux, twin_profile)]
         (1 / 2) flux flux = Inr out \<and>
      map_of out ''B'' = Some 1 \<and>
      interpolate_fluxes first_seen_listing [(flux, [])] [(flux, twin_profile_first)]
         (1 / 2) flux flux = Inr out' \<and>
      map_of out' = map_of out)"
proof -
  let ?A = repeating_profile and ?B = twin_profile
  let ?none = "[] :: series"
  have l: "set_union_listing first_seen_listing" by (rule first_seen_listing_ok)
  have gA: "getitem [(flux, ?A)] flux = Inr ?A" by (rule getitem_flux)
  have gE: "getitem [(flux, [])] flux = Inr []" by (rule getitem_flux)
  have gB: "getitem [(flux, ?B)] flux = Inr ?B" by (rule getitem_flux)
  have f: "(0::real) \<le> 1 / 2" "(1 / 2 :: real) \<le> 1" by simp_all
  have left: "\<exists>out out'.
      interpolate_fluxes first_seen_listing [(flux, ?A)] [(flux, [])] (1 / 2) flux flux = Inr out \<and>
      map_of out ''A'' = Some (1 / 2) \<and>
      interpolate_fluxes first_seen_listing [(flux, repeating_profile_first)] [(flux, [])]
         (1 / 2) flux flux = Inr out' \<and>
      map_of out' = map_of out"
  proof -
    from interpolate_first_occurrence [OF l gA gE f]
    obtain out where
      run: "interpolate_fluxes first_seen_listing [(flux, ?A)] [(flux, [])] (1 / 2) flux flux = Inr out" and
      first: "\<forall>xs r v ys. ?A = xs @ (r, v) # ys \<and> r \<notin> fst ` set xs \<longrightarrow>
        map_of out r = Some ((1 - 1 / 2) * v + 1 / 2 * recorded ?none r) \<and>
        (\<forall>medium_1'. getitem medium_1' flux = Inr (xs @ (r, v) # filter (\<lambda>e. fst e \<noteq> r) ys) \<longrightarrow>
           (\<exists>out'. interpolate_fluxes first_seen_listing medium_1' [(flux, [])] (1 / 2) flux flux = Inr out' \<and>
                   map_of out' = map_of out))"
      by (elim exE conjE)
    have split: "?A = [(''C'', 4)] @ (''A'', 1) # [(''A'', 9)] \<and> ''A'' \<notin> fst ` set [(''C'', 4::real)]"
      by (simp add: repeating_profile_def)
    note at = first [rule_format, OF split]
    have val: "map_of out ''A'' = Some ((1 - 1 / 2) * 1 + 1 / 2 * recorded ?none ''A'')"
      using at by (rule conjunct1)
    have g': "getitem [(flux, repeating_profile_first)] flux
        = Inr ([(''C'', 4)] @ (''A'', 1) # filter (\<lambda>e. fst e \<noteq> ''A'') [(''A'', 9)])"
      by (simp add: getitem_def repeating_profile_first_def)
    from at [THEN conjunct2, rule_format, OF g'] obtain out' where
      r': "interpolate_fluxes first_seen_listing [(flux, repeating_profile_first)] [(flux, [])]
             (1 / 2) flux flux = Inr out'" and
      same: "map_of out' = map_of out"
      by (elim exE conjE)
    have half: "map_of out ''A'' = Some (1 / 2)" using val by (simp add: recorded_def)
    have "interpolate_fluxes first_seen_listing [(flux, ?A)] [(flux, [])] (1 / 2) flux flux = Inr out \<and>
      map_of out ''A'' = Some (1 / 2) \<and>
      interpolate_fluxes first_seen_listing [(flux, repeating_profile_first)] [(flux, [])]
         (1 / 2) flux flux = Inr out' \<and>
      map_of out' = map_of out"
      by (intro conjI run half r' same)
    then show ?thesis by (intro exI)
  qed
  have right: "\<exists>out out'.
      interpolate_fluxes first_seen_listing [(flux, [])] [(flux, ?B)] (1 / 2) flux flux = Inr out \<and>
      map_of out ''B'' = Some 1 \<and>
      interpolate_fluxes first_seen_listing [(flux, [])] [(flux, twin_profile_first)]
         (1 / 2) flux flux = Inr out' \<and>
      map_of out' = map_of out"
  proof -
    from interpolate_first_occurrence [OF l gE gB f]
    obtain out where
      run: "interpolate_fluxes first_seen_listing [(flux, [])] [(flux, ?B)] (1 / 2) flux flux = Inr out" and
      second: "\<forall>xs r w ys. ?B = xs @ (r, w) # ys \<and> r \<notin> fst ` set xs \<longrightarrow>
        map_of out r = Some ((1 - 1 / 2) * recorded ?none r + 1 / 2 * w) \<and>
        (\<forall>medium_2'. getitem medium_2' flux = Inr (xs @ (r, w) # filter (\<lambda>e. fst e \<noteq> r) ys) \<longrightarrow>
           (\<exists>out'. interpolate_fluxes first_seen_listing [(flux, [])] medium_2' (1 / 2) flux flux = Inr out' \<and>
                   map_of out' = map_of out))"
      by (elim exE conjE)
    have split: "?B = [] @ (''B'', 2) # [(''B'', 7)] \<and> ''B'' \<notin> fst ` set ?none"
      by (simp add: twin_profile_def)
    note at = second [rule_format, OF split]
    have val: "map_of out ''B'' = Some ((1 - 1 / 2) * recorded ?none ''B'' + 1 / 2 * 2)"
      using at by (rule conjunct1)
    have g': "getitem [(flux, twin_profile_first)] flux
        = Inr ([] @ (''B'', 2) # filter (\<lambda>e. fst e \<noteq> ''B'') [(''B'', 7)])"
      by (simp add: getitem_def twin_profile_first_def)
    from at [THEN conjunct2, rule_format, OF g'] obtain out' where
      r': "interpolate_fluxes first_seen_listing [(flux, [])] [(flux, twin_profile_first)]
             (1 / 2) flux flux = Inr out'" and
      same: "map_of out' = map_of out"
      by (elim exE conjE)
    have one: "map_of out ''B'' = Some 1" using val by (simp add: recorded_def)
    have "interpolate_fluxes first_seen_listing [(flux, [])] [(flux, ?B)] (1 / 2) flux flux = Inr out \<and>
      map_of out ''B'' = Some 1 \<and>
      interpolate_fluxes first_seen_listing [(flux, [])] [(flux, twin_profile_first)]
         (1 / 2) flux flux = Inr out' \<and>
      map_of out' = map_of out"
      by (intro conjI run one r' same)
    then show ?thesis by (intro exI)
  qed
  show ?thesis by (intro conjI l gA gE gB f left right)
qed

subsection \<open>Distinct output labels\<close>

text \<open>
  Claim C9. The labels of the returned Series are pairwise distinct, and each label of the
  union occurs among them exactly once, also when the input columns repeat labels.
\<close>

theorem interpolate_index_distinct:
  assumes "set_union_listing listing"
    and "getitem medium_1 c1 = Inr A" and "getitem medium_2 c2 = Inr B"
    and "0 \<le> f" and "f \<le> 1"
  shows "\<exists>out. interpolate_fluxes listing medium_1 medium_2 f c1 c2 = Inr out \<and>
           distinct (map fst out) \<and>
           (\<forall>r \<in> set (map fst A) \<union> set (map fst B). count_list (map fst out) r = 1)"
proof -
  let ?idx = "listing (map fst A) (map fst B)"
  let ?out = "map (\<lambda>r. (r, (1 - f) * recorded A r + f * recorded B r)) ?idx"
  have run: "interpolate_fluxes listing medium_1 medium_2 f c1 c2 = Inr ?out"
    using assms(2-5) by (rule interpolate_fluxes_value)
  have idx: "set ?idx = set (map fst A) \<union> set (map fst B)" and d: "distinct ?idx"
    using assms(1) by (simp_all add: set_union_listing_def)
  have keys: "map fst ?out = ?idx" by (rule keys_tabulate)
  have "\<forall>r \<in> set (map fst A) \<union> set (map fst B). count_list (map fst ?out) r = 1"
    using d idx by (simp only: keys) (simp add: count_list_distinct)
  moreover have "distinct (map fst ?out)" using d by (simp only: keys)
  ultimately show ?thesis using run by blast
qed

theorem interpolate_index_distinct_witness:
  "set_union_listing first_seen_listing \<and>
   getitem [(flux, [(''A'', 1), (''C'', 4), (''A'', 9)])] flux = Inr [(''A'', 1), (''C'', 4), (''A'', 9)] \<and>
   getitem [(flux, [(''C'', 5), (''C'', 6)])] flux = Inr [(''C'', 5), (''C'', 6)] \<and>
   (0::real) \<le> 1 / 2 \<and> (1 / 2 :: real) \<le> 1 \<and>
   (\<exists>out. interpolate_fluxes first_seen_listing [(flux, [(''A'', 1), (''C'', 4), (''A'', 9)])]
         [(flux, [(''C'', 5), (''C'', 6)])] (1 / 2) flux flux = Inr out \<and>
      distinct (map fst out) \<and>
      count_list (map fst out) ''A'' = 1 \<and> count_list (map fst out) ''C'' = 1)"
proof -
  let ?A = "[(''A'', 1), (''C'', 4), (''A'', 9)] :: series"
  let ?B = "[(''C'', 5), (''C'', 6)] :: series"
  have g1: "getitem [(flux, ?A)] flux = Inr ?A" by (simp add: getitem_def)
  have g2: "getitem [(flux, ?B)] flux = Inr ?B" by (simp add: getitem_def)
  have f: "(0::real) \<le> 1 / 2" "(1 / 2 :: real) \<le> 1" by simp_all
  from interpolate_index_distinct [OF first_seen_listing_ok g1 g2 f]
  obtain out where
    "interpolate_fluxes first_seen_listing [(flux, ?A)] [(flux, ?B)] (1 / 2) flux flux = Inr out"
    "distinct (map fst out)"
    "\<forall>r \<in> set (map fst ?A) \<union> set (map fst ?B). count_list (map fst out) r = 1"
    by blast
  moreover from this have "count_list (map fst out) ''A'' = 1" "count_list (map fst out) ''C'' = 1"
    by simp_all
  ultimately show ?thesis using first_seen_listing_ok g1 g2 f by blast
qed

subsection \<open>Swapping the profiles\<close>

text \<open>
  In exact arithmetic, swapping the two profiles and replacing the factor \<open>f\<close> by \<open>1 - f\<close>
  gives the same value under every label of the union.
\<close>

lemma interpolate_swap_reflect_exact:
  assumes "set_union_listing listing"
    and "getitem medium_1 c1 = Inr A" and "getitem medium_2 c2 = Inr B"
    and "0 \<le> f" and "f \<le> 1"
  shows "\<exists>out out'.
           interpolate_fluxes listing medium_1 medium_2 f c1 c2 = Inr out \<and>
           interpolate_fluxes listing medium_2 medium_1 (1 - f) c2 c1 = Inr out' \<and>
           (\<forall>r \<in> set (map fst A) \<union> set (map fst B). map_of out r = map_of out' r \<and> map_of out r \<noteq> None)"
proof -
  let ?out = "map (\<lambda>r. (r, (1 - f) * recorded A r + f * recorded B r)) (listing (map fst A) (map fst B))"
  let ?out' = "map (\<lambda>r. (r, (1 - (1 - f)) * recorded B r + (1 - f) * recorded A r)) (listing (map fst B) (map fst A))"
  have run: "interpolate_fluxes listing medium_1 medium_2 f c1 c2 = Inr ?out"
    using assms(2-5) by (rule interpolate_fluxes_value)
  have run': "interpolate_fluxes listing medium_2 medium_1 (1 - f) c2 c1 = Inr ?out'"
    using assms(3,2) by (rule interpolate_fluxes_value) (use assms(4,5) in simp_all)
  have idx: "set (listing a b) = set a \<union> set b" for a b
    using assms(1) by (simp add: set_union_listing_def)
  have "\<forall>r \<in> set (map fst A) \<union> set (map fst B). map_of ?out r = map_of ?out' r \<and> map_of ?out r \<noteq> None"
    by (simp only: map_of_tabulate idx) auto
  then show ?thesis using run run' by blast
qed

text \<open>
  Claim C10, as the code has it. The source computes in binary64, where the swapped call
  uses the factors \<open>1 - (1 - f)\<close> and \<open>1 - f\<close> in place of \<open>f\<close> and \<open>1 - f\<close>. For every
  factor in [0, 1] both calls return and carry exactly the labels of the union; their values
  agree under every label whenever reflecting the factor twice gives it back,
  \<open>1 - (1 - f) = f\<close> in binary64, as it does for 0, 1/4, 1/2 and 1.
\<close>

theorem interpolate_f64_swap_reflect:
  assumes "set_union_listing listing"
    and "getitem medium_1 c1 = Inr A" and "getitem medium_2 c2 = Inr B"
    and "0 \<le> f" and "f \<le> 1"
  shows "\<exists>out out'.
           interpolate_fluxes_f64 listing medium_1 medium_2 f c1 c2 = Inr out \<and>
           interpolate_fluxes_f64 listing medium_2 medium_1 (f64_sub 1 f) c2 c1 = Inr out' \<and>
           set (map fst out) = set (map fst A) \<union> set (map fst B) \<and>
           set (map fst out') = set (map fst A) \<union> set (map fst B) \<and>
           (f64_sub 1 (f64_sub 1 f) = f \<longrightarrow>
              (\<forall>r \<in> set (map fst A) \<union> set (map fst B).
                 map_of out r = map_of out' r \<and> map_of out r \<noteq> None))"
proof -
  let ?g = "f64_sub 1 f"
  let ?v = "\<lambda>r. f64_add (f64_mul ?g (recorded A r)) (f64_mul f (recorded B r))"
  let ?v' = "\<lambda>r. f64_add (f64_mul (f64_sub 1 ?g) (recorded B r)) (f64_mul ?g (recorded A r))"
  let ?out = "map (\<lambda>r. (r, ?v r)) (listing (map fst A) (map fst B))"
  let ?out' = "map (\<lambda>r. (r, ?v' r)) (listing (map fst B) (map fst A))"
  have g: "0 \<le> ?g" "?g \<le> 1" using f64_sub_unit_interval [OF assms(4,5)] by simp_all
  have run: "interpolate_fluxes_f64 listing medium_1 medium_2 f c1 c2 = Inr ?out"
    using assms(2-5) by (rule interpolate_fluxes_f64_value)
  have run': "interpolate_fluxes_f64 listing medium_2 medium_1 ?g c2 c1 = Inr ?out'"
    using assms(3,2) g by (rule interpolate_fluxes_f64_value)
  have idx: "set (listing a b) = set a \<union> set b" for a b
    using assms(1) by (simp add: set_union_listing_def)
  have k: "set (map fst ?out) = set (map fst A) \<union> set (map fst B)"
    by (simp only: keys_tabulate idx)
  have k': "set (map fst ?out') = set (map fst A) \<union> set (map fst B)"
    by (simp only: keys_tabulate idx Un_commute)
  have eq: "\<forall>r \<in> set (map fst A) \<union> set (map fst B).
      map_of ?out r = map_of ?out' r \<and> map_of ?out r \<noteq> None"
    if twice: "f64_sub 1 ?g = f"
  proof -
    have "?v' r = ?v r" for r
      by (simp only: twice f64_add_commute [of "f64_mul f (recorded B r)"])
    then show ?thesis by (simp only: map_of_tabulate idx) auto
  qed
  show ?thesis using run run' k k' eq by blast
qed

theorem interpolate_f64_swap_reflect_witness:
  "set_union_listing first_seen_listing \<and>
   getitem [(flux, repeating_profile)] flux = Inr repeating_profile \<and>
   getitem [(flux, second_profile)] flux = Inr second_profile \<and>
   (0::real) \<le> 1 / 4 \<and> (1 / 4 :: real) \<le> 1 \<and>
   f64_sub 1 (f64_sub 1 (1 / 4)) = 1 / 4 \<and>
   (\<exists>out out'.
      interpolate_fluxes_f64 first_seen_listing [(flux, repeating_profile)] [(flux, second_profile)]
         (1 / 4) flux flux = Inr out \<and>
      interpolate_fluxes_f64 first_seen_listing [(flux, second_profile)] [(flux, repeating_profile)]
         (f64_sub 1 (1 / 4)) flux flux = Inr out' \<and>
      set (map fst out) = {''A'', ''B'', ''C''} \<and> set (map fst out') = {''A'', ''B'', ''C''} \<and>
      map_of out ''A'' = map_of out' ''A'' \<and> map_of out ''B'' = map_of out' ''B'' \<and>
      map_of out ''C'' = map_of out' ''C'' \<and> map_of out ''C'' \<noteq> None)"
proof -
  let ?A = repeating_profile and ?B = second_profile
  let ?U = "set (map fst ?A) \<union> set (map fst ?B)"
  have l: "set_union_listing first_seen_listing" by (rule first_seen_listing_ok)
  have g1: "getitem [(flux, ?A)] flux = Inr ?A" by (rule getitem_flux)
  have g2: "getitem [(flux, ?B)] flux = Inr ?B" by (rule getitem_flux)
  have f: "(0::real) \<le> 1 / 4" "(1 / 4 :: real) \<le> 1" by simp_all
  have twice: "f64_sub 1 (f64_sub 1 (1 / 4)) = 1 / 4" by code_simp
  have U: "?U = {''A'', ''B'', ''C''}"
    by (auto simp: repeating_profile_def second_profile_def)
  from interpolate_f64_swap_reflect [OF l g1 g2 f]
  obtain out out' where
    r: "interpolate_fluxes_f64 first_seen_listing [(flux, ?A)] [(flux, ?B)] (1 / 4) flux flux = Inr out" and
    r': "interpolate_fluxes_f64 first_seen_listing [(flux, ?B)] [(flux, ?A)] (f64_sub 1 (1 / 4)) flux flux = Inr out'" and
    k: "set (map fst out) = ?U" and
    k': "set (map fst out') = ?U" and
    v: "f64_sub 1 (f64_sub 1 (1 / 4)) = 1 / 4 \<longrightarrow>
        (\<forall>r \<in> ?U. map_of out r = map_of out' r \<and> map_of out r \<noteq> None)"
    by (elim exE conjE)
  from v twice have v': "\<forall>r \<in> ?U. map_of out r = map_of out' r \<and> map_of out r \<noteq> None"
    by (rule mp)
  have "''A'' \<in> ?U" by (subst U) simp
  from bspec [OF v' this] have a: "map_of out ''A'' = map_of out' ''A''" by (rule conjunct1)
  have "''B'' \<in> ?U" by (subst U) simp
  from bspec [OF v' this] have b: "map_of out ''B'' = map_of out' ''B''" by (rule conjunct1)
  have "''C'' \<in> ?U" by (subst U) simp
  from bspec [OF v' this] have c: "map_of out ''C'' = map_of out' ''C''"
    and c': "map_of out ''C'' \<noteq> None" by (rule conjunct1, rule conjunct2)
  have ks: "set (map fst out) = {''A'', ''B'', ''C''}" "set (map fst out') = {''A'', ''B'', ''C''}"
    using k k' U by simp_all
  have "      interpolate_fluxes_f64 first_seen_listing [(flux, ?A)] [(flux, ?B)] (1 / 4) flux flux = Inr out \<and>
      interpolate_fluxes_f64 first_seen_listing [(flux, ?B)] [(flux, ?A)]
         (f64_sub 1 (1 / 4)) flux flux = Inr out' \<and>
      set (map fst out) = {''A'', ''B'', ''C''} \<and> set (map fst out') = {''A'', ''B'', ''C''} \<and>
      map_of out ''A'' = map_of out' ''A'' \<and> map_of out ''B'' = map_of out' ''B'' \<and>
      map_of out ''C'' = map_of out' ''C'' \<and> map_of out ''C'' \<noteq> None"
    by (intro conjI r r' ks a b c c')
  then have "\<exists>out out'.
      interpolate_fluxes_f64 first_seen_listing [(flux, ?A)] [(flux, ?B)] (1 / 4) flux flux = Inr out \<and>
      interpolate_fluxes_f64 first_seen_listing [(flux, ?B)] [(flux, ?A)]
         (f64_sub 1 (1 / 4)) flux flux = Inr out' \<and>
      set (map fst out) = {''A'', ''B'', ''C''} \<and> set (map fst out') = {''A'', ''B'', ''C''} \<and>
      map_of out ''A'' = map_of out' ''A'' \<and> map_of out ''B'' = map_of out' ''B'' \<and>
      map_of out ''C'' = map_of out' ''C'' \<and> map_of out ''C'' \<noteq> None"
    by (intro exI)
  then show ?thesis by (intro conjI l g1 g2 f twice)
qed

text \<open>
  Claim C10 as stated fails for the factor 0.1 and the profiles \<open>{R: 1}\<close> and \<open>{R: 3}\<close>:
  the call returns 1.2000000000000002 under R, the swapped call with the factor
  \<open>1 - 0.1\<close> returns 1.2.
\<close>

theorem interpolate_f64_swap_differs:
  "interpolate_fluxes_f64 first_seen_listing [(flux, [(''R'', 1)])] [(flux, [(''R'', 3)])]
       (f64 (1 / 10)) flux flux
     = Inr [(''R'', 5404319552844596 / 4503599627370496)] \<and>
   interpolate_fluxes_f64 first_seen_listing [(flux, [(''R'', 3)])] [(flux, [(''R'', 1)])]
       (f64_sub 1 (f64 (1 / 10))) flux flux
     = Inr [(''R'', 5404319552844595 / 4503599627370496)] \<and>
   (5404319552844596 / 4503599627370496 :: real) \<noteq> 5404319552844595 / 4503599627370496"
proof -
  have a: "interpolate_fluxes_f64 first_seen_listing [(flux, [(''R'', 1)])] [(flux, [(''R'', 3)])]
       (f64 (1 / 10)) flux flux
     = Inr [(''R'', 5404319552844596 / 4503599627370496)]"
    by code_simp
  have b: "interpolate_fluxes_f64 first_seen_listing [(flux, [(''R'', 3)])] [(flux, [(''R'', 1)])]
       (f64_sub 1 (f64 (1 / 10))) flux flux
     = Inr [(''R'', 5404319552844595 / 4503599627370496)]"
    by code_simp
  show ?thesis using a b by simp
qed

section \<open>Properties of calc\_kos\<close>

subsection \<open>The community label\<close>

lemma loc_Inr:
  "loc df labels = Inr ms \<Longrightarrow> ms = concat (map (\<lambda>l. filter (\<lambda>r. row_label r = l) df) labels)"
  by (simp add: loc_def split: if_splits)

lemma loc_permuted:
  assumes "mset indices' = mset indices" and "loc df indices = Inr ms"
  shows "\<exists>ms'. loc df indices' = Inr ms' \<and> mset ms' = mset ms"
proof -
  let ?f = "\<lambda>l. filter (\<lambda>r. row_label r = l) df"
  have s: "set indices' = set indices" using assms(1) by (rule mset_eq_setD)
  have ok: "list_all (\<lambda>l. l \<in> set (map row_label df)) indices"
    using assms(2) by (simp add: loc_def split: if_splits)
  then have ok': "list_all (\<lambda>l. l \<in> set (map row_label df)) indices'"
    using s by (simp add: list_all_iff)
  have "mset (concat (map ?f xs)) = sum_mset (image_mset (\<lambda>l. mset (?f l)) (mset xs))" for xs
    by (induction xs) simp_all
  then have "mset (concat (map ?f indices')) = mset (concat (map ?f indices))"
    using assms(1) by simp
  moreover have "ms = concat (map ?f indices)" using assms(2) by (rule loc_Inr)
  moreover have "loc df indices' = Inr (concat (map ?f indices'))"
    using ok' by (simp add: loc_def)
  ultimately show ?thesis by simp
qed

lemma sort_mset_cong: "mset xs = mset ys \<Longrightarrow> sort xs = sort ys"
  by (rule properties_for_sort) simp_all

lemma tax_id_apply_str: "map tax_id (apply_str ms) = map (\<lambda>m. py_str (row_id m)) ms"
  by (simp add: apply_str_def)

lemma SampleID_set_SampleID: "r \<in> set (set_SampleID v ko) \<Longrightarrow> SampleID r = v"
  by (auto simp: set_SampleID_def)

lemma calc_kos_Inr:
  assumes "calc_kos solver medium df indices = Inr rows"
  shows "\<exists>ms ko. loc df indices = Inr ms \<and>
           rows = set_SampleID (str_join ''_'' (sort (map (\<lambda>m. py_str (row_id m)) ms))) ko"
  using assms
  by (auto simp: calc_kos_def Let_def tax_id_apply_str split: sum.splits)

text \<open>
  Claim C5. Whenever \<open>calc_kos\<close> returns rows, on the success path or from the handler,
  every row carries as \<open>SampleID\<close> the members' identifiers, each turned into a string,
  sorted and joined by underscores. A second call on the same database whose index list is
  a permutation of the first one's puts that same label on each of its rows.
\<close>

theorem calc_kos_label:
  assumes "calc_kos solver medium agora_df indices = Inr rows"
    and "calc_kos solver' medium' agora_df indices' = Inr rows'"
    and "mset indices' = mset indices"
  shows "\<exists>members. loc agora_df indices = Inr members \<and>
           (\<forall>r \<in> set rows \<union> set rows'.
              SampleID r = str_join ''_'' (sort (map (\<lambda>m. py_str (row_id m)) members)))"
proof -
  let ?ids = "\<lambda>ms. map (\<lambda>m. py_str (row_id m)) ms"
  from calc_kos_Inr [OF assms(1)] obtain ms ko where
    ms: "loc agora_df indices = Inr ms" and
    rows: "rows = set_SampleID (str_join ''_'' (sort (?ids ms))) ko"
    by blast
  from calc_kos_Inr [OF assms(2)] obtain ms' ko' where
    ms': "loc agora_df indices' = Inr ms'" and
    rows': "rows' = set_SampleID (str_join ''_'' (sort (?ids ms'))) ko'"
    by blast
  from loc_permuted [OF assms(3) ms] ms' have "mset ms' = mset ms" by simp
  then have "mset (?ids ms') = mset (?ids ms)" by (metis mset_map)
  then have same: "sort (?ids ms') = sort (?ids ms)" by (rule sort_mset_cong)
  have "\<forall>r \<in> set rows \<union> set rows'. SampleID r = str_join ''_'' (sort (?ids ms))"
    using rows rows' same by (auto dest: SampleID_set_SampleID)
  then show ?thesis using ms by blast
qed

theorem calc_kos_label_witness:
  "calc_kos example_solver example_medium example_db [1, 10] =
     Inr [\<lparr>knockout = ''7'', kept = ''3'', kept_relative_change = Some (- (1 / 5)),
            error = StrObj ''None'', SampleID = ''3_7''\<rparr>,
          \<lparr>knockout = ''3'', kept = ''7'', kept_relative_change = Some (- (1 / 10)),
            error = StrObj ''None'', SampleID = ''3_7''\<rparr>] \<and>
   calc_kos failing_solver example_medium example_db [10, 1] =
     Inr [\<lparr>knockout = ''3'', kept = ''7'', kept_relative_change = None,
            error = ExcObj (Exception ''infeasible''), SampleID = ''3_7''\<rparr>,
          \<lparr>knockout = ''7'', kept = ''3'', kept_relative_change = None,
            error = ExcObj (Exception ''infeasible''), SampleID = ''3_7''\<rparr>] \<and>
   mset [10, 1] = mset [1, 10 :: int] \<and>
   (\<exists>members. loc example_db [1, 10] = Inr members \<and>
      str_join ''_'' (sort (map (\<lambda>m. py_str (row_id m)) members)) = ''3_7'')"
proof -
  have a: "calc_kos example_solver example_medium example_db [1, 10] =
     Inr [\<lparr>knockout = ''7'', kept = ''3'', kept_relative_change = Some (- (1 / 5)),
            error = StrObj ''None'', SampleID = ''3_7''\<rparr>,
          \<lparr>knockout = ''3'', kept = ''7'', kept_relative_change = Some (- (1 / 10)),
            error = StrObj ''None'', SampleID = ''3_7''\<rparr>]"
    by code_simp
  have b: "calc_kos failing_solver example_medium example_db [10, 1] =
     Inr [\<lparr>knockout = ''3'', kept = ''7'', kept_relative_change = None,
            error = ExcObj (Exception ''infeasible''), SampleID = ''3_7''\<rparr>,
          \<lparr>knockout = ''7'', kept = ''3'', kept_relative_change = None,
            error = ExcObj (Exception ''infeasible''), SampleID = ''3_7''\<rparr>]"
    by code_simp
  have c: "mset [10, 1] = mset [1, 10 :: int]" by simp
  from calc_kos_label [OF a b c] obtain members where
    m: "loc example_db [1, 10] = Inr members" and
    l: "\<forall>r \<in> set [\<lparr>knockout = ''7'', kept = ''3'', kept_relative_change = Some (- (1 / 5)),
            error = StrObj ''None'', SampleID = ''3_7''\<rparr>,
          \<lparr>knockout = ''3'', kept = ''7'', kept_relative_change = Some (- (1 / 10)),
            error = StrObj ''None'', SampleID = ''3_7''\<rparr>] \<union>
         set [\<lparr>knockout = ''3'', kept = ''7'', kept_relative_change = None,
            error = ExcObj (Exception ''infeasible''), SampleID = ''3_7''\<rparr>,
          \<lparr>knockout = ''7'', kept = ''3'', kept_relative_change = None,
            error = ExcObj (Exception ''infeasible''), SampleID = ''3_7''\<rparr>].
          SampleID r = str_join ''_'' (sort (map (\<lambda>m. py_str (row_id m)) members))"
    by blast
  from l have "str_join ''_'' (sort (map (\<lambda>m. py_str (row_id m)) members)) = ''3_7''"
    by simp
  then show ?thesis using a b c m by blast
qed

subsection \<open>The error column on the success path\<close>

lemma error_set_SampleID: "r \<in> set (set_SampleID v ko) \<Longrightarrow> \<exists>r' \<in> set ko. error r = error r' \<and>
    knockout r = knockout r' \<and> kept r = kept r' \<and> kept_relative_change r = kept_relative_change r'"
  by (auto simp: set_SampleID_def)

lemma set_error_row: "r \<in> set (set_error v ko) \<Longrightarrow> error r = v \<and> (\<exists>r' \<in> set ko.
    knockout r = knockout r' \<and> kept r = kept r' \<and> kept_relative_change r = kept_relative_change r')"
  by (auto simp: set_error_def)

lemma try_body_Inr:
  assumes "try_body solver medium tax = Inr ko"
  shows "\<exists>wide long. solver tax medium = Inr wide \<and> melt (set_knockout wide) = Inr long \<and>
           ko = set_error (StrObj ''None'') (dropna long)"
  using assms by (auto simp: try_body_def split: sum.splits)

lemma calc_kos_try_Inr:
  assumes "loc agora_df indices = Inr members"
    and "try_body solver medium (apply_str members) = Inr ko"
  shows "calc_kos solver medium agora_df indices =
           Inr (set_SampleID (str_join ''_'' (sort (map tax_id (apply_str members)))) ko)"
  using assms by (simp add: calc_kos_def Let_def)

text \<open>
  Claim C4, as the code has it. When the body of the \<^verbatim>\<open>try\<close> completes, \<open>calc_kos\<close>
  returns its rows, and the \<open>error\<close> cell of every row is the four-character string
  \<^verbatim>\<open>'None'\<close> that \<^verbatim>\<open>ko['error'] = 'None'\<close> stores.
\<close>

theorem calc_kos_success_error:
  assumes "loc agora_df indices = Inr members"
    and "try_body solver medium (apply_str members) = Inr ko"
  shows "\<exists>rows. calc_kos solver medium agora_df indices = Inr rows \<and> length rows = length ko \<and>
           (\<forall>r \<in> set rows. error r = StrObj ''None'')"
proof -
  let ?rows = "set_SampleID (str_join ''_'' (sort (map tax_id (apply_str members)))) ko"
  have run: "calc_kos solver medium agora_df indices = Inr ?rows"
    using assms by (rule calc_kos_try_Inr)
  from try_body_Inr [OF assms(2)] obtain long where
    ko: "ko = set_error (StrObj ''None'') (dropna long)" by blast
  have "error r = StrObj ''None''" if "r \<in> set ?rows" for r
  proof -
    from error_set_SampleID [OF that] obtain r' where "r' \<in> set ko" "error r = error r'" by blast
    then show ?thesis using set_error_row [of r' "StrObj ''None''" "dropna long"] ko by simp
  qed
  moreover have "length ?rows = length ko" by (simp add: set_SampleID_def)
  ultimately show ?thesis using run by blast
qed

theorem calc_kos_success_error_witness:
  "loc example_db [1, 10] =
     Inr [\<lparr>row_label = 1, row_id = IntId 7, row_rest = ''seven.json''\<rparr>,
          \<lparr>row_label = 10, row_id = IntId 3, row_rest = ''three.json''\<rparr>] \<and>
   try_body example_solver example_medium
       (apply_str [\<lparr>row_label = 1, row_id = IntId 7, row_rest = ''seven.json''\<rparr>,
                   \<lparr>row_label = 10, row_id = IntId 3, row_rest = ''three.json''\<rparr>]) =
     Inr [\<lparr>knockout = ''7'', kept = ''3'', kept_relative_change = Some (- (1 / 5)),
            error = StrObj ''None''\<rparr>,
          \<lparr>knockout = ''3'', kept = ''7'', kept_relative_change = Some (- (1 / 10)),
            error = StrObj ''None''\<rparr>] \<and>
   (\<exists>rows. calc_kos example_solver example_medium example_db [1, 10] = Inr rows \<and>
      length rows = 2 \<and> list_all (\<lambda>r. error r = StrObj ''None'') rows)"
proof -
  let ?members = "[\<lparr>row_label = 1, row_id = IntId 7, row_rest = ''seven.json''\<rparr>,
                   \<lparr>row_label = 10, row_id = IntId 3, row_rest = ''three.json''\<rparr>]"
  let ?ko = "[\<lparr>knockout = ''7'', kept = ''3'', kept_relative_change = Some (- (1 / 5)),
            error = StrObj ''None''\<rparr>,
          \<lparr>knockout = ''3'', kept = ''7'', kept_relative_change = Some (- (1 / 10)),
            error = StrObj ''None''\<rparr>]"
  have a: "loc example_db [1, 10] = Inr ?members" by code_simp
  have b: "try_body example_solver example_medium (apply_str ?members) = Inr ?ko" by code_simp
  from calc_kos_success_error [OF a b] obtain rows where
    "calc_kos example_solver example_medium example_db [1, 10] = Inr rows"
    "length rows = length ?ko" "\<forall>r \<in> set rows. error r = StrObj ''None''"
    by blast
  then have "calc_kos example_solver example_medium example_db [1, 10] = Inr rows \<and>
      length rows = 2 \<and> list_all (\<lambda>r. error r = StrObj ''None'') rows"
    by (simp add: list_all_iff)
  then show ?thesis using a b by blast
qed

text \<open>
  Claim C4 as stated says the \<open>error\<close> cell is Python's null value on the success path.
  On the community of the members 7 and 3 with a solver that succeeds, both rows hold the
  string \<^verbatim>\<open>'None'\<close>, which is not \<^verbatim>\<open>None\<close>.
\<close>

theorem calc_kos_error_is_string:
  "calc_kos example_solver example_medium example_db [1, 10] =
     Inr [\<lparr>knockout = ''7'', kept = ''3'', kept_relative_change = Some (- (1 / 5)),
            error = StrObj ''None'', SampleID = ''3_7''\<rparr>,
          \<lparr>knockout = ''3'', kept = ''7'', kept_relative_change = Some (- (1 / 10)),
            error = StrObj ''None'', SampleID = ''3_7''\<rparr>] \<and>
   StrObj ''None'' \<noteq> NoneObj"
proof -
  have "calc_kos example_solver example_medium example_db [1, 10] =
     Inr [\<lparr>knockout = ''7'', kept = ''3'', kept_relative_change = Some (- (1 / 5)),
            error = StrObj ''None'', SampleID = ''3_7''\<rparr>,
          \<lparr>knockout = ''3'', kept = ''7'', kept_relative_change = Some (- (1 / 10)),
            error = StrObj ''None'', SampleID = ''3_7''\<rparr>]"
    by code_simp
  then show ?thesis by simp
qed

subsection \<open>The handler\<close>

lemma calc_kos_fallback_pair:
  assumes "loc agora_df indices = Inr [m0, m1]"
    and "try_body solver medium (apply_str [m0, m1]) = Inl e"
  shows "calc_kos solver medium agora_df indices =
      Inr [\<lparr>knockout = py_str (row_id m0), kept = py_str (row_id m1), kept_relative_change = None,
             error = ExcObj e,
             SampleID = str_join ''_'' (sort [py_str (row_id m0), py_str (row_id m1)])\<rparr>,
           \<lparr>knockout = py_str (row_id m1), kept = py_str (row_id m0), kept_relative_change = None,
             error = ExcObj e,
             SampleID = str_join ''_'' (sort [py_str (row_id m0), py_str (row_id m1)])\<rparr>]"
  using assms
  by (simp add: calc_kos_def Let_def except_body_def DataFrame_def apply_str_def
      set_error_def set_SampleID_def numeral_2_eq_2)

lemma calc_kos_fallback_other:
  assumes "loc agora_df indices = Inr members" and "length members \<noteq> 2"
    and "try_body solver medium (apply_str members) = Inl e"
  shows "calc_kos solver medium agora_df indices =
           Inl (ValueError ''All arrays must be of the same length'')"
  using assms
  by (simp add: calc_kos_def Let_def except_body_def DataFrame_def apply_str_def)

text \<open>
  Claim C2 says that no error of the solver leaves \<open>calc_kos\<close>. For a community of three
  members and a solver that raises, the handler builds a frame from two lists of length
  three and \<^verbatim>\<open>[np.nan]*2\<close>; pandas refuses it and the ValueError leaves \<open>calc_kos\<close>.
  For two members the handler returns the two rows the claim describes
  (\<open>calc_kos_fallback_pair\<close>); for any other number it raises (\<open>calc_kos_fallback_other\<close>).
\<close>

theorem calc_kos_fallback_raises:
  "calc_kos failing_solver example_medium example_db [1, 10, 5] =
     Inl (ValueError ''All arrays must be of the same length'')"
  by code_simp

subsection \<open>The rows of a successful run\<close>

lemma column_defined_length:
  "length idx = length vs \<Longrightarrow>
   length (filter (\<lambda>r. kept_relative_change r \<noteq> None)
             (map (\<lambda>(k, v). \<lparr>knockout = k, kept = c, kept_relative_change = v\<rparr>) (zip idx vs)))
     = length (filter (\<lambda>v. v \<noteq> None) vs)"
  by (induction idx vs rule: list_induct2) simp_all

lemma column_partition:
  assumes "length vs = N" and "j < N" and "vs ! j = None"
  shows "length (filter (\<lambda>v. v \<noteq> None) vs)
           + length (filter (\<lambda>i. i \<noteq> j \<and> vs ! i = None) [0..<N]) = N - 1"
proof -
  have "map (\<lambda>i. vs ! i) [0..<N] = vs"
    using assms(1) map_nth [of vs] by simp
  then have "length (filter (\<lambda>v. v = None) vs) = length (filter (\<lambda>v. v = None) (map (\<lambda>i. vs ! i) [0..<N]))"
    by (simp only:)
  also have "\<dots> = length (filter (\<lambda>i. vs ! i = None) [0..<N])"
    by (simp add: filter_map comp_def)
  also have "\<dots> = card ({i. vs ! i = None} \<inter> {0..<N})"
    by (simp add: distinct_length_filter)
  also have "{i. vs ! i = None} \<inter> {0..<N} = insert j ({i. i \<noteq> j \<and> vs ! i = None} \<inter> {0..<N})"
    using assms(2,3) by auto
  also have "card \<dots> = Suc (card ({i. i \<noteq> j \<and> vs ! i = None} \<inter> {0..<N}))"
    by (subst card_insert_disjoint) auto
  also have "card ({i. i \<noteq> j \<and> vs ! i = None} \<inter> {0..<N})
      = length (filter (\<lambda>i. i \<noteq> j \<and> vs ! i = None) [0..<N])"
    by (simp add: distinct_length_filter)
  finally have nan: "length (filter (\<lambda>v. v = None) vs)
      = Suc (length (filter (\<lambda>i. i \<noteq> j \<and> vs ! i = None) [0..<N]))" .
  have "length (filter (\<lambda>v. v \<noteq> None) vs) + length (filter (\<lambda>v. \<not> v \<noteq> None) vs) = N"
    using assms(1) sum_length_filter_compl [of "\<lambda>v. v \<noteq> None" vs] by simp
  then show ?thesis using nan by simp
qed

lemma sum_list_complement:
  assumes "\<And>j. j \<in> set js \<Longrightarrow> f j + g j = (c::nat)"
  shows "sum_list (map f js) = length js * c - sum_list (map g js)"
  using assms
proof (induction js)
  case Nil
  show ?case by simp
next
  case (Cons j js)
  have "f j + g j = c" using Cons.prems by simp
  moreover have "sum_list (map f js) = length js * c - sum_list (map g js)"
    using Cons by simp
  moreover have "sum_list (map g js) \<le> length js * c"
  proof -
    have "g k \<le> c" if "k \<in> set js" for k
    proof -
      have "f k + g k = c" using Cons.prems that by simp
      then show ?thesis by simp
    qed
    then have "sum_list (map g js) \<le> sum_list (map (\<lambda>_. c) js)"
      by (intro sum_list_mono) simp
    then show ?thesis by (simp add: sum_list_triv)
  qed
  ultimately show ?case by simp
qed

lemma melt_Inr:
  "melt ko = Inr long \<Longrightarrow>
   long = concat (map (\<lambda>(c, vs).
                  map (\<lambda>(k, v). \<lparr>knockout = k, kept = c, kept_relative_change = v\<rparr>)
                      (zip (knockout_column ko) vs))
                (value_columns ko))"
  by (simp add: melt_def split: if_splits)

lemma set_knockout_unchanged:
  assumes "map fst (wide_columns ko) = wide_index ko" and "''knockout'' \<notin> set (wide_index ko)"
  shows "set_knockout ko = \<lparr>knockout_column = wide_index ko, value_columns = wide_columns ko\<rparr>"
proof -
  have "\<forall>x \<in> set (wide_columns ko). fst x \<noteq> ''knockout''"
    using assms by (metis image_eqI set_map)
  then have "filter (\<lambda>(c, vs). c \<noteq> ''knockout'') (wide_columns ko) = wide_columns ko"
    by (auto simp: filter_id_conv)
  then show ?thesis by (simp add: set_knockout_def)
qed

text \<open>
  What the reshaping does when no label is in its way. Let the solver return the table of
  the \<open>N\<close> members (\<open>knockout_table\<close>), let no column of that table be labelled
  \<^verbatim>\<open>knockout\<close>, and let the body of the \<^verbatim>\<open>try\<close> complete. Then no returned row has equal
  \<open>knockout\<close> and \<open>kept\<close>, no returned row holds NaN, and the number of rows is
  \<open>N * (N - 1)\<close> minus the number of NaN cells off the diagonal.
\<close>

lemma calc_kos_success_rows:
  assumes "loc agora_df indices = Inr members"
    and "solver (apply_str members) medium = Inr ko"
    and "try_body solver medium (apply_str members) = Inr long_err"
    and "knockout_table (length members) ko"
    and "''knockout'' \<notin> set (wide_index ko)"
  shows "\<exists>rows. calc_kos solver medium agora_df indices = Inr rows \<and>
           (\<forall>r \<in> set rows. knockout r \<noteq> kept r \<and> kept_relative_change r \<noteq> None) \<and>
           length rows = length members * (length members - 1) - undefined_off_diagonal ko"
proof -
  let ?N = "length members"
  let ?idx = "wide_index ko" and ?cols = "wide_columns ko"
  let ?mk = "\<lambda>c (k, v). \<lparr>knockout = k, kept = c, kept_relative_change = v\<rparr>"
  let ?col = "\<lambda>(c, vs). map (?mk c) (zip ?idx vs)"
  let ?P = "\<lambda>r::ko_row. kept_relative_change r \<noteq> None"
  let ?rows = "set_SampleID (str_join ''_'' (sort (map tax_id (apply_str members)))) long_err"
  have len: "length ?idx = ?N" and dist: "distinct ?idx" and labels: "map fst ?cols = ?idx"
    and col_len: "\<And>c vs. (c, vs) \<in> set ?cols \<Longrightarrow> length vs = ?N"
    and diag: "\<And>i. i < ?N \<Longrightarrow> snd (?cols ! i) ! i = None"
    using assms(4) by (auto simp: knockout_table_def list_all_iff)
  have ncols: "length ?cols = ?N" using labels len by (metis length_map)
  have run: "calc_kos solver medium agora_df indices = Inr ?rows"
    using assms(1,3) by (rule calc_kos_try_Inr)
  from try_body_Inr [OF assms(3)] assms(2) obtain long where
    melted: "melt (set_knockout ko) = Inr long" and
    long_err: "long_err = set_error (StrObj ''None'') (dropna long)"
    by auto
  have long: "long = concat (map ?col ?cols)"
    using melt_Inr [OF melted] set_knockout_unchanged [OF labels assms(5)] by simp
  have cell: "\<exists>i j. i < ?N \<and> j < ?N \<and> knockout r = ?idx ! i \<and> kept r = ?idx ! j \<and>
                kept_relative_change r = snd (?cols ! j) ! i"
    if "r \<in> set long" for r
  proof -
    from that long have "\<exists>cv \<in> set ?cols. r \<in> set (?col cv)" by simp
    then obtain cv where cv0: "cv \<in> set ?cols" and r0: "r \<in> set (?col cv)" by blast
    obtain c vs where split: "cv = (c, vs)" by (cases cv)
    have cv: "(c, vs) \<in> set ?cols" using cv0 split by simp
    have r: "r \<in> set (map (?mk c) (zip ?idx vs))" using r0 split by simp
    from cv obtain j where j: "j < length ?cols" "?cols ! j = (c, vs)"
      by (auto simp: in_set_conv_nth)
    from r obtain k v where kv: "(k, v) \<in> set (zip ?idx vs)" "r = \<lparr>knockout = k, kept = c, kept_relative_change = v\<rparr>"
      by auto
    from kv(1) obtain i where i: "i < length ?idx" "i < length vs" "k = ?idx ! i" "v = vs ! i"
      by (auto simp: in_set_zip)
    have "c = ?idx ! j" using j labels by (metis fst_conv nth_map)
    moreover have "i < ?N" "j < ?N" using i(1) j(1) len ncols by simp_all
    moreover have "kept_relative_change r = snd (?cols ! j) ! i" using kv(2) i(4) j(2) by simp
    moreover have "knockout r = ?idx ! i" "kept r = c" using kv(2) i(3) by simp_all
    ultimately show ?thesis by blast
  qed
  have rows_of: "\<exists>r' \<in> set long. ?P r' \<and> knockout r = knockout r' \<and> kept r = kept r' \<and>
      kept_relative_change r = kept_relative_change r'" if "r \<in> set ?rows" for r
  proof -
    from error_set_SampleID [OF that] obtain r1 where r1: "r1 \<in> set long_err"
      "knockout r = knockout r1" "kept r = kept r1" "kept_relative_change r = kept_relative_change r1"
      by blast
    from r1(1) long_err set_error_row [of r1 "StrObj ''None''" "dropna long"] obtain r2 where
      "r2 \<in> set (dropna long)" "knockout r1 = knockout r2" "kept r1 = kept r2"
      "kept_relative_change r1 = kept_relative_change r2"
      by blast
    then show ?thesis using r1 by (auto simp: dropna_def)
  qed
  have no_self: "knockout r \<noteq> kept r \<and> kept_relative_change r \<noteq> None" if "r \<in> set ?rows" for r
  proof -
    from rows_of [OF that] obtain r' where r': "r' \<in> set long" "?P r'" "knockout r = knockout r'"
      "kept r = kept r'" "kept_relative_change r = kept_relative_change r'"
      by blast
    from cell [OF r'(1)] obtain i j where ij: "i < ?N" "j < ?N" "knockout r' = ?idx ! i"
      "kept r' = ?idx ! j" "kept_relative_change r' = snd (?cols ! j) ! i"
      by blast
    have "i \<noteq> j" using r'(2) ij(2,5) diag by auto
    then have "?idx ! i \<noteq> ?idx ! j" using dist ij(1,2) len by (simp add: nth_eq_iff_index_eq)
    then show ?thesis using r' ij by simp
  qed
  have "length ?rows = length (filter ?P long)"
    by (simp add: set_SampleID_def long_err set_error_def dropna_def)
  also have "\<dots> = sum_list (map (\<lambda>cv. length (filter ?P (?col cv))) ?cols)"
    by (simp add: long filter_concat length_concat comp_def)
  also have "\<dots> = sum_list (map (\<lambda>cv. length (filter (\<lambda>v. v \<noteq> None) (snd cv))) ?cols)"
  proof (rule arg_cong [where f = sum_list], rule map_cong [OF refl])
    fix cv assume "cv \<in> set ?cols"
    then have "length ?idx = length (snd cv)" using col_len [of "fst cv" "snd cv"] len by simp
    from column_defined_length [OF this, of "fst cv"]
    show "length (filter ?P (?col cv)) = length (filter (\<lambda>v. v \<noteq> None) (snd cv))"
      by (simp add: case_prod_beta)
  qed
  also have "\<dots> = sum_list (map (\<lambda>j. length (filter (\<lambda>v. v \<noteq> None) (snd (?cols ! j)))) [0..<?N])"
  proof -
    have "?cols = map (\<lambda>j. ?cols ! j) [0..<?N]" using ncols by (metis map_nth)
    then have "map (\<lambda>cv. length (filter (\<lambda>v. v \<noteq> None) (snd cv))) ?cols
        = map (\<lambda>cv. length (filter (\<lambda>v. v \<noteq> None) (snd cv))) (map (\<lambda>j. ?cols ! j) [0..<?N])"
      by simp
    then show ?thesis by (simp add: comp_def)
  qed
  also have "\<dots> = length [0..<?N] * (?N - 1)
      - sum_list (map (\<lambda>j. length (filter (\<lambda>i. i \<noteq> j \<and> snd (?cols ! j) ! i = None) [0..<?N])) [0..<?N])"
  proof (rule sum_list_complement)
    fix j assume "j \<in> set [0..<?N]"
    then have j: "j < ?N" by simp
    then have "?cols ! j \<in> set ?cols" using ncols by simp
    then have "length (snd (?cols ! j)) = ?N" using col_len [of "fst (?cols ! j)" "snd (?cols ! j)"] by simp
    from column_partition [OF this j diag [OF j]]
    show "length (filter (\<lambda>v. v \<noteq> None) (snd (?cols ! j)))
        + length (filter (\<lambda>i. i \<noteq> j \<and> snd (?cols ! j) ! i = None) [0..<?N]) = ?N - 1" .
  qed
  also have "\<dots> = ?N * (?N - 1) - undefined_off_diagonal ko"
    by (simp add: undefined_off_diagonal_def len ncols)
  finally have size: "length ?rows = ?N * (?N - 1) - undefined_off_diagonal ko" .
  show ?thesis using run no_self size by blast
qed

lemma calc_kos_success_rows_example:
  "loc example_db [1, 5, 10] = Inr example_db \<and>
   trio_solver (apply_str example_db) example_medium = Inr trio_table \<and>
   try_body trio_solver example_medium (apply_str example_db) =
     Inr [\<lparr>knockout = ''3'', kept = ''12'', kept_relative_change = Some (- (1 / 2)),
            error = StrObj ''None''\<rparr>,
          \<lparr>knockout = ''12'', kept = ''3'', kept_relative_change = Some 0,
            error = StrObj ''None''\<rparr>,
          \<lparr>knockout = ''7'', kept = ''3'', kept_relative_change = Some (- (1 / 5)),
            error = StrObj ''None''\<rparr>,
          \<lparr>knockout = ''12'', kept = ''7'', kept_relative_change = Some (1 / 10),
            error = StrObj ''None''\<rparr>,
          \<lparr>knockout = ''3'', kept = ''7'', kept_relative_change = Some (- (1 / 10)),
            error = StrObj ''None''\<rparr>] \<and>
   knockout_table (length example_db) trio_table \<and>
   ''knockout'' \<notin> set (wide_index trio_table) \<and>
   undefined_off_diagonal trio_table = 1 \<and>
   (\<exists>rows. calc_kos trio_solver example_medium example_db [1, 5, 10] = Inr rows \<and>
      list_all (\<lambda>r. knockout r \<noteq> kept r \<and> kept_relative_change r \<noteq> None) rows \<and>
      length rows = 5)"
proof -
  let ?ko = "[\<lparr>knockout = ''3'', kept = ''12'', kept_relative_change = Some (- (1 / 2)),
            error = StrObj ''None''\<rparr>,
          \<lparr>knockout = ''12'', kept = ''3'', kept_relative_change = Some 0,
            error = StrObj ''None''\<rparr>,
          \<lparr>knockout = ''7'', kept = ''3'', kept_relative_change = Some (- (1 / 5)),
            error = StrObj ''None''\<rparr>,
          \<lparr>knockout = ''12'', kept = ''7'', kept_relative_change = Some (1 / 10),
            error = StrObj ''None''\<rparr>,
          \<lparr>knockout = ''3'', kept = ''7'', kept_relative_change = Some (- (1 / 10)),
            error = StrObj ''None''\<rparr>]"
  have a: "loc example_db [1, 5, 10] = Inr example_db" by code_simp
  have b: "trio_solver (apply_str example_db) example_medium = Inr trio_table"
    by (simp add: trio_solver_def)
  have c: "try_body trio_solver example_medium (apply_str example_db) = Inr ?ko" by code_simp
  have d: "knockout_table (length example_db) trio_table" by code_simp
  have e: "''knockout'' \<notin> set (wide_index trio_table)" by (simp add: trio_table_def)
  have n: "undefined_off_diagonal trio_table = 1" by code_simp
  have len: "length example_db = 3" by (simp add: example_db_def)
  from calc_kos_success_rows [OF a b c d e] obtain rows where
    "calc_kos trio_solver example_medium example_db [1, 5, 10] = Inr rows"
    "\<forall>r \<in> set rows. knockout r \<noteq> kept r \<and> kept_relative_change r \<noteq> None"
    "length rows = length example_db * (length example_db - 1) - undefined_off_diagonal trio_table"
    by blast
  then have "calc_kos trio_solver example_medium example_db [1, 5, 10] = Inr rows \<and>
      list_all (\<lambda>r. knockout r \<noteq> kept r \<and> kept_relative_change r \<noteq> None) rows \<and>
      length rows = 5"
    by (simp add: list_all_iff n len)
  then show ?thesis using a b c d e n by blast
qed

text \<open>
  Claim C6 says that a successful call on \<open>N\<close> members returns \<open>N * (N - 1)\<close> rows less the
  undefined cells. The source converts the table from wide to long format after
  \<^verbatim>\<open>ko['knockout'] = ko.index\<close>, which stores the index in a column of the solver's own
  frame. For a community with a member called \<^verbatim>\<open>knockout\<close> that statement overwrites the
  member's column, whose cells are then not melted: the table of the two members \<open>a\<close> and
  \<open>knockout\<close> has no NaN off the diagonal, the call succeeds, and one row is returned
  instead of two.
\<close>

theorem calc_kos_knockout_label_clash:
  "loc clash_db [0, 1] = Inr clash_db \<and>
   clash_solver (apply_str clash_db) example_medium = Inr clash_table \<and>
   knockout_table (length clash_db) clash_table \<and>
   undefined_off_diagonal clash_table = 0 \<and>
   calc_kos clash_solver example_medium clash_db [0, 1] =
     Inr [\<lparr>knockout = ''knockout'', kept = ''a'', kept_relative_change = Some (1 / 5),
            error = StrObj ''None'', SampleID = ''a_knockout''\<rparr>] \<and>
   length [\<lparr>knockout = ''knockout'', kept = ''a'', kept_relative_change = Some (1 / 5),
            error = StrObj ''None'', SampleID = ''a_knockout''\<rparr>]
     \<noteq> length clash_db * (length clash_db - 1) - undefined_off_diagonal clash_table"
proof -
  have a: "loc clash_db [0, 1] = Inr clash_db" by code_simp
  have b: "clash_solver (apply_str clash_db) example_medium = Inr clash_table"
    by (simp add: clash_solver_def)
  have c: "knockout_table (length clash_db) clash_table" by code_simp
  have d: "undefined_off_diagonal clash_table = 0" by code_simp
  have e: "calc_kos clash_solver example_medium clash_db [0, 1] =
     Inr [\<lparr>knockout = ''knockout'', kept = ''a'', kept_relative_change = Some (1 / 5),
            error = StrObj ''None'', SampleID = ''a_knockout''\<rparr>]"
    by code_simp
  have f: "length clash_db = 2" by (simp add: clash_db_def)
  show ?thesis using a b c d e by (simp add: f)
qed

text \<open>
  The name \<^verbatim>\<open>kept_relative_change\<close> is in the way too: for a community with a member of
  that name \<^verbatim>\<open>melt\<close> raises although the solver has returned its table, and the handler
  answers with the two rows of a failed run.
\<close>

lemma calc_kos_value_name_clash:
  "value_clash_solver (apply_str value_clash_db) example_medium = Inr value_clash_table \<and>
   knockout_table (length value_clash_db) value_clash_table \<and>
   calc_kos value_clash_solver example_medium value_clash_db [0, 1] =
     Inr [\<lparr>knockout = ''a'', kept = ''kept_relative_change'', kept_relative_change = None,
            error = ExcObj (ValueError ''value_name (kept_relative_change) cannot match an element in the DataFrame columns.''),
            SampleID = ''a_kept_relative_change''\<rparr>,
          \<lparr>knockout = ''kept_relative_change'', kept = ''a'', kept_relative_change = None,
            error = ExcObj (ValueError ''value_name (kept_relative_change) cannot match an element in the DataFrame columns.''),
            SampleID = ''a_kept_relative_change''\<rparr>]"
proof -
  have a: "value_clash_solver (apply_str value_clash_db) example_medium = Inr value_clash_table"
    by (simp add: value_clash_solver_def)
  have b: "knockout_table (length value_clash_db) value_clash_table" by code_simp
  have c: "calc_kos value_clash_solver example_medium value_clash_db [0, 1] =
     Inr [\<lparr>knockout = ''a'', kept = ''kept_relative_change'', kept_relative_change = None,
            error = ExcObj (ValueError ''value_name (kept_relative_change) cannot match an element in the DataFrame columns.''),
            SampleID = ''a_kept_relative_change''\<rparr>,
          \<lparr>knockout = ''kept_relative_change'', kept = ''a'', kept_relative_change = None,
            error = ExcObj (ValueError ''value_name (kept_relative_change) cannot match an element in the DataFrame columns.''),
            SampleID = ''a_kept_relative_change''\<rparr>]"
    by code_simp
  show ?thesis by (intro conjI a b c)
qed

end
